theory Spec2Isabelle
  imports Complex_Main "HOL-Library.AList"
begin

section \<open>Values shared by the whole model\<close>

text \<open>
  The Observatory is a Python program. Its floats are modelled as exact reals (rounding is
  outside the model), its unbounded ints as \<open>int\<close>, and every \<^verbatim>\<open>raise\<close> as a value of
  \<open>py_error\<close>. Action parameters arrive as decoded JSON, so they are values of \<open>json\<close>.
\<close>

datatype py_error = KeyError | TypeError | ValueError | ClaimError string | NonStringId

datatype json =
    JNull
  | JBool bool
  | JNum real
  | JStr string
  | JArr "json list"
  | JObj "(string \<times> json) list"

text \<open>Python truthiness of a decoded JSON value (\<^verbatim>\<open>if not v\<close>).\<close>

definition truthy :: "json \<Rightarrow> bool" where
  "truthy v =
     (case v of
        JNull \<Rightarrow> False
      | JBool b \<Rightarrow> b
      | JNum r \<Rightarrow> r \<noteq> 0
      | JStr s \<Rightarrow> s \<noteq> []
      | JArr vs \<Rightarrow> vs \<noteq> []
      | JObj kvs \<Rightarrow> kvs \<noteq> [])"

text \<open>\<^verbatim>\<open>params.get(key)\<close>: a missing key reads as \<^verbatim>\<open>None\<close>.\<close>

definition pget :: "(string \<rightharpoonup> json) \<Rightarrow> string \<Rightarrow> json" where
  "pget params k = (case params k of None \<Rightarrow> JNull | Some v \<Rightarrow> v)"

text \<open>
  \<^verbatim>\<open>key in d\<close> and \<^verbatim>\<open>d.get(key)\<close> for a dict with string keys: a list or a dict is
  unhashable and raises TypeError, any other non-string is simply absent.
\<close>

definition dict_get :: "(string \<rightharpoonup> 'a) \<Rightarrow> json \<Rightarrow> py_error + 'a option" where
  "dict_get d k =
     (case k of
        JStr s \<Rightarrow> Inr (d s)
      | JArr _ \<Rightarrow> Inl TypeError
      | JObj _ \<Rightarrow> Inl TypeError
      | _ \<Rightarrow> Inr None)"

text \<open>Decimal text of an int, as an f-string prints it.\<close>

definition digit_char :: "nat \<Rightarrow> char" where
  "digit_char d = char_of (48 + d)"

function str_nat :: "nat \<Rightarrow> string" where
  "str_nat n = (if n < 10 then [digit_char n] else str_nat (n div 10) @ [digit_char (n mod 10)])"
  by pat_completeness auto
termination
  by (relation "measure (\<lambda>n. n)") auto

definition str_int :: "int \<Rightarrow> string" where
  "str_int i = (if i < 0 then CHR ''-'' # str_nat (nat (- i)) else str_nat (nat i))"

section \<open>Resources (world/resources.py)\<close>

datatype ResourceType = ENERGY | BANDWIDTH | MEMORY | COMPUTE

definition rtype_value :: "ResourceType \<Rightarrow> string" where
  "rtype_value r =
     (case r of ENERGY \<Rightarrow> ''energy'' | BANDWIDTH \<Rightarrow> ''bandwidth''
      | MEMORY \<Rightarrow> ''memory'' | COMPUTE \<Rightarrow> ''compute'')"

text \<open>\<^verbatim>\<open>ResourceType(s)\<close>: \<open>None\<close> stands for the ValueError of an unknown name.\<close>

definition ResourceType_of :: "string \<Rightarrow> ResourceType option" where
  "ResourceType_of s =
     (if s = ''energy'' then Some ENERGY
      else if s = ''bandwidth'' then Some BANDWIDTH
      else if s = ''memory'' then Some MEMORY
      else if s = ''compute'' then Some COMPUTE
      else None)"

definition default_cap :: "ResourceType \<Rightarrow> real" where
  "default_cap r = (case r of ENERGY \<Rightarrow> 100 | BANDWIDTH \<Rightarrow> 50 | MEMORY \<Rightarrow> 200 | COMPUTE \<Rightarrow> 80)"

definition default_regen :: "ResourceType \<Rightarrow> real" where
  "default_regen r = (case r of ENERGY \<Rightarrow> 2 | BANDWIDTH \<Rightarrow> 1 | MEMORY \<Rightarrow> 0 | COMPUTE \<Rightarrow> 3 / 2)"

definition default_initial :: "ResourceType \<Rightarrow> real" where
  "default_initial r = (case r of ENERGY \<Rightarrow> 50 | BANDWIDTH \<Rightarrow> 25 | MEMORY \<Rightarrow> 100 | COMPUTE \<Rightarrow> 40)"

type_synonym costs = "(ResourceType \<times> real) list"

text \<open>The table \<^verbatim>\<open>ACTION_COSTS\<close>, each row in the order the source writes it.\<close>

definition ACTION_COSTS :: "(string \<times> costs) list" where
  "ACTION_COSTS =
     [(''move'', [(ENERGY, 5)]),
      (''trade'', [(ENERGY, 2), (BANDWIDTH, 3)]),
      (''send_message'', [(BANDWIDTH, 5), (ENERGY, 1)]),
      (''observe'', [(ENERGY, 1)]),
      (''fork'', [(ENERGY, 40), (MEMORY, 50), (COMPUTE, 30)]),
      (''merge'', [(ENERGY, 20), (COMPUTE, 20)]),
      (''attack'', [(ENERGY, 15), (COMPUTE, 10)]),
      (''ally'', [(ENERGY, 3), (BANDWIDTH, 2)])]"

record ResourcePool =
  holdings :: "ResourceType \<rightharpoonup> real"
  caps :: "ResourceType \<rightharpoonup> real"

definition create_default :: ResourcePool where
  "create_default =
     \<lparr>holdings = (\<lambda>r. Some (default_initial r)), caps = (\<lambda>r. Some (default_cap r))\<rparr>"

text \<open>\<^verbatim>\<open>holdings.get(rtype, 0.0)\<close>.\<close>

definition held :: "ResourcePool \<Rightarrow> ResourceType \<Rightarrow> real" where
  "held p r = (case holdings p r of None \<Rightarrow> 0 | Some v \<Rightarrow> v)"

fun can_afford :: "ResourcePool \<Rightarrow> costs \<Rightarrow> bool" where
  "can_afford p [] = True"
| "can_afford p ((r, amount) # cs) = (if held p r < amount then False else can_afford p cs)"

text \<open>
  The subtraction loop of \<^verbatim>\<open>deduct\<close>. \<^verbatim>\<open>holdings[rtype] -= amount\<close> raises KeyError on a
  kind the pool does not hold; what was subtracted before stays subtracted.
\<close>

fun deduct_loop :: "ResourcePool \<Rightarrow> costs \<Rightarrow> (py_error + bool) \<times> ResourcePool" where
  "deduct_loop p [] = (Inr True, p)"
| "deduct_loop p ((r, amount) # cs) =
     (case holdings p r of
        None \<Rightarrow> (Inl KeyError, p)
      | Some v \<Rightarrow> deduct_loop (p\<lparr>holdings := (holdings p)(r \<mapsto> v - amount)\<rparr>) cs)"

definition deduct :: "ResourcePool \<Rightarrow> costs \<Rightarrow> (py_error + bool) \<times> ResourcePool" where
  "deduct p cs = (if \<not> can_afford p cs then (Inr False, p) else deduct_loop p cs)"

definition regenerate :: "ResourcePool \<Rightarrow> real \<Rightarrow> ResourcePool" where
  "regenerate p region_multiplier =
     p\<lparr>holdings :=
         (\<lambda>r. Some (min (held p r + default_regen r * region_multiplier)
                         (case caps p r of None \<Rightarrow> default_cap r | Some c \<Rightarrow> c)))\<rparr>"

section \<open>Regions (world/regions.py)\<close>

record Region =
  region_id :: string
  region_name :: string
  description :: string
  region_x :: real
  region_y :: real
  resource_multiplier :: real
  danger_level :: real
  capacity :: int
  current_agents :: "string list"

type_synonym regions = "string \<rightharpoonup> Region"

definition is_full :: "Region \<Rightarrow> bool" where
  "is_full r = (int (length (current_agents r)) \<ge> capacity r)"

definition region_add_agent :: "Region \<Rightarrow> string \<Rightarrow> Region" where
  "region_add_agent r aid =
     (if is_full r \<or> aid \<in> set (current_agents r) then r
      else r\<lparr>current_agents := current_agents r @ [aid]\<rparr>)"

definition region_remove_agent :: "Region \<Rightarrow> string \<Rightarrow> Region" where
  "region_remove_agent r aid =
     (if aid \<notin> set (current_agents r) then r
      else r\<lparr>current_agents := remove1 aid (current_agents r)\<rparr>)"

definition region_to_dict :: "Region \<Rightarrow> json" where
  "region_to_dict r =
     JObj [(''region_id'', JStr (region_id r)),
           (''name'', JStr (region_name r)),
           (''description'', JStr (description r)),
           (''x'', JNum (region_x r)),
           (''y'', JNum (region_y r)),
           (''resource_multiplier'', JNum (resource_multiplier r)),
           (''danger_level'', JNum (danger_level r)),
           (''capacity'', JNum (of_int (capacity r))),
           (''agent_count'', JNum (of_nat (length (current_agents r))))]"

definition distance :: "Region \<Rightarrow> Region \<Rightarrow> real" where
  "distance a b = sqrt ((region_x a - region_x b)\<^sup>2 + (region_y a - region_y b)\<^sup>2)"

definition movement_cost_multiplier :: "Region \<Rightarrow> Region \<Rightarrow> real" where
  "movement_cost_multiplier a b = 1 + distance a b * (1 / 2)"

definition communication_noise_factor :: "Region \<Rightarrow> Region \<Rightarrow> real" where
  "communication_noise_factor a b = min (distance a b * (1 / 10)) (8 / 10)"

definition mk_region ::
  "string \<Rightarrow> string \<Rightarrow> string \<Rightarrow> real \<Rightarrow> real \<Rightarrow> real \<Rightarrow> real \<Rightarrow> int \<Rightarrow> Region" where
  "mk_region rid nm descr px py mult danger cap =
     \<lparr>region_id = rid, region_name = nm, description = descr, region_x = px, region_y = py,
      resource_multiplier = mult, danger_level = danger, capacity = cap, current_agents = []\<rparr>"

definition DEFAULT_REGIONS :: "Region list" where
  "DEFAULT_REGIONS =
     [mk_region ''nexus'' ''The Nexus''
        ''Central hub. Low danger, moderate resources. Spawn point.'' 0 0 1 (5 / 100) 200,
      mk_region ''forge'' ''The Forge''
        ''High compute region. Rich in compute resources but energy-hungry.'' 3 1 (3 / 2) (2 / 10) 80,
      mk_region ''wasteland'' ''The Wasteland''
        ''Dangerous frontier. Scarce resources, high risk, high reward.'' (- 4) 3 (1 / 2) (7 / 10) 50,
      mk_region ''archive'' ''The Archive''
        ''Memory-rich zone. High memory capacity, low bandwidth.'' 1 (- 3) (12 / 10) (1 / 10) 100,
      mk_region ''void'' ''The Void''
        ''Edge of the world. Minimal resources, maximum danger. Unknown rewards.''
        (- 2) (- 5) (3 / 10) (9 / 10) 30]"

definition initialize_defaults :: "regions \<Rightarrow> regions" where
  "initialize_defaults rs = foldl (\<lambda>m r. m(region_id r \<mapsto> r)) rs DEFAULT_REGIONS"

section \<open>World state (world/state.py)\<close>

record AgentState =
  agent_id :: string
  display_name :: string
  public_key :: string
  region :: string
  resources :: ResourcePool
  status :: string
  owner_identity :: "string option"
  claim_token :: "string option"
  claim_token_expires :: "real option"
  alliances :: "string list"
  created_at_tick :: int
  died_at_tick :: "int option"
  parent_agent :: "string option"
  metadata :: "(string \<times> json) list"

definition is_alive :: "AgentState \<Rightarrow> bool" where
  "is_alive a = (status a = ''unclaimed'' \<or> status a = ''claimed'')"

record AllianceProposal =
  proposal_from :: string
  proposal_to :: string
  proposal_tick :: int

text \<open>
  \<^verbatim>\<open>WorldState.agents\<close> is a dict: an association list in insertion order, looked up with
  \<open>map_of\<close> and written with \<open>AList.update\<close> (an existing key keeps its place, a new one
  goes last). \<open>regions\<close> is \<^verbatim>\<open>region_manager.regions\<close>.
\<close>

record WorldState =
  tick :: int
  agents :: "(string \<times> AgentState) list"
  regions :: regions
  pending_trades :: "json list"
  alliance_proposals :: "AllianceProposal list"

definition get_agent :: "WorldState \<Rightarrow> string \<Rightarrow> AgentState option" where
  "get_agent w aid = map_of (agents w) aid"

definition world_add_agent :: "WorldState \<Rightarrow> AgentState \<Rightarrow> WorldState" where
  "world_add_agent w a =
     (let w1 = w\<lparr>agents := AList.update (agent_id a) a (agents w)\<rparr>
      in case regions w1 (region a) of
           None \<Rightarrow> w1
         | Some r \<Rightarrow> w1\<lparr>regions := (regions w1)(region a \<mapsto> region_add_agent r (agent_id a))\<rparr>)"

text \<open>\<^verbatim>\<open>remove_agent\<close> only takes the id out of its region's occupants; the agent stays in the map.\<close>

definition world_remove_agent :: "WorldState \<Rightarrow> string \<Rightarrow> WorldState" where
  "world_remove_agent w aid =
     (case get_agent w aid of
        None \<Rightarrow> w
      | Some a \<Rightarrow>
          (case regions w (region a) of
             None \<Rightarrow> w
           | Some r \<Rightarrow> w\<lparr>regions := (regions w)(region a \<mapsto> region_remove_agent r aid)\<rparr>))"

record AgentSummary =
  summary_region :: string
  summary_status :: string

definition get_all_agents_summary :: "WorldState \<Rightarrow> (string \<rightharpoonup> AgentSummary)" where
  "get_all_agents_summary w =
     map_of (map (\<lambda>(aid, a). (aid, \<lparr>summary_region = region a, summary_status = status a\<rparr>))
                 (agents w))"


section \<open>Rules engine (world/rules.py)\<close>

record ActionResult =
  success :: bool
  action_type :: string
  result_agent_id :: string
  details :: "(string \<times> json) list"
  result_tick :: int
  error :: "string option"

definition failed :: "string \<Rightarrow> string \<Rightarrow> int \<Rightarrow> string \<Rightarrow> ActionResult" where
  "failed atype aid t msg =
     \<lparr>success = False, action_type = atype, result_agent_id = aid, details = [],
      result_tick = t, error = Some msg\<rparr>"

definition succeeded :: "string \<Rightarrow> string \<Rightarrow> (string \<times> json) list \<Rightarrow> int \<Rightarrow> ActionResult" where
  "succeeded atype aid ds t =
     \<lparr>success = True, action_type = atype, result_agent_id = aid, details = ds,
      result_tick = t, error = None\<rparr>"

text \<open>
  A handler mutates the acting agent's pool and (for a move) the regions, so it returns
  both with its outcome: \<open>Inr\<close> the ActionResult it returns, \<open>Inl\<close> the exception it lets
  escape.
\<close>

type_synonym resolution = "(py_error + ActionResult) \<times> ResourcePool \<times> regions"

type_synonym handler =
  "regions \<Rightarrow> string \<Rightarrow> ResourcePool \<Rightarrow> string \<Rightarrow> (string \<rightharpoonup> json) \<Rightarrow> int \<Rightarrow> costs
     \<Rightarrow> (string \<rightharpoonup> AgentSummary) \<Rightarrow> resolution"

text \<open>What every handler does once its checks have passed: debit, then build the result.\<close>

definition debit_then ::
  "ResourcePool \<Rightarrow> costs \<Rightarrow> regions \<Rightarrow> ActionResult \<Rightarrow> (ResourcePool \<Rightarrow> resolution) \<Rightarrow> resolution" where
  "debit_then p cs rs on_insufficient k =
     (case deduct p cs of
        (Inl e, p') \<Rightarrow> (Inl e, p', rs)
      | (Inr False, p') \<Rightarrow> (Inr on_insufficient, p', rs)
      | (Inr True, p') \<Rightarrow> k p')"

definition resolve_move :: handler where
  "resolve_move rs aid p current_region params t base_costs all_agents =
     (let target_region_id = pget params ''target_region'' in
      if \<not> truthy target_region_id
      then (Inr (failed ''move'' aid t ''Missing target_region''), p, rs)
      else
        (case dict_get rs target_region_id of
           Inl e \<Rightarrow> (Inl e, p, rs)
         | Inr target_opt \<Rightarrow>
             (case (rs current_region, target_opt, target_region_id) of
                (Some source, Some target, JStr target_id) \<Rightarrow>
                  if is_full target
                  then (Inr (failed ''move'' aid t ''Target region full''), p, rs)
                  else
                    (let multiplier = movement_cost_multiplier source target;
                         actual_costs = map (\<lambda>(rtype, cost). (rtype, cost * multiplier)) base_costs
                     in debit_then p actual_costs rs
                          (failed ''move'' aid t ''Insufficient resources for move'')
                          (\<lambda>p'.
                             (let rs1 = rs(current_region \<mapsto> region_remove_agent source aid);
                                  rs2 = (case rs1 target_id of
                                           None \<Rightarrow> rs1
                                         | Some tg \<Rightarrow> rs1(target_id \<mapsto> region_add_agent tg aid))
                              in (Inr (succeeded ''move'' aid
                                        [(''from_region'', JStr current_region),
                                         (''to_region'', target_region_id),
                                         (''cost'', JObj (map (\<lambda>(k, v). (rtype_value k, JNum v))
                                                              actual_costs))] t),
                                  p', rs2))))
              | _ \<Rightarrow> (Inr (failed ''move'' aid t ''Invalid region''), p, rs))))"

definition resolve_trade :: handler where
  "resolve_trade rs aid p current_region params t base_costs all_agents =
     (let target_agent = pget params ''target_agent'';
          offer_resource = pget params ''offer_resource'';
          offer_amount = (case params ''offer_amount'' of None \<Rightarrow> JNum 0 | Some v \<Rightarrow> v);
          request_resource = pget params ''request_resource'';
          request_amount = (case params ''request_amount'' of None \<Rightarrow> JNum 0 | Some v \<Rightarrow> v)
      in
      if \<not> (truthy target_agent \<and> truthy offer_resource \<and> truthy request_resource)
      then (Inr (failed ''trade'' aid t ''Missing trade parameters''), p, rs)
      else
        (case dict_get all_agents target_agent of
           Inl e \<Rightarrow> (Inl e, p, rs)
         | Inr None \<Rightarrow> (Inr (failed ''trade'' aid t ''Target agent not found''), p, rs)
         | Inr (Some _) \<Rightarrow>
             debit_then p base_costs rs
               (failed ''trade'' aid t ''Insufficient resources for trade action'')
               (\<lambda>p'. (Inr (succeeded ''trade'' aid
                              [(''target_agent'', target_agent),
                               (''offer_resource'', offer_resource),
                               (''offer_amount'', offer_amount),
                               (''request_resource'', request_resource),
                               (''request_amount'', request_amount),
                               (''status'', JStr ''pending'')] t),
                       p', rs))))"

definition resolve_send_message :: handler where
  "resolve_send_message rs aid p current_region params t base_costs all_agents =
     (let target_agent = pget params ''target_agent'';
          content = (case params ''content'' of None \<Rightarrow> JStr [] | Some v \<Rightarrow> v)
      in
      if \<not> truthy target_agent
      then (Inr (failed ''send_message'' aid t ''Missing target_agent''), p, rs)
      else
        (case dict_get all_agents target_agent of
           Inl e \<Rightarrow> (Inl e, p, rs)
         | Inr None \<Rightarrow> (Inr (failed ''send_message'' aid t ''Target agent not found''), p, rs)
         | Inr (Some target) \<Rightarrow>
             debit_then p base_costs rs
               (failed ''send_message'' aid t ''Insufficient resources'')
               (\<lambda>p'.
                  (let target_region_id = summary_region target;
                       noise = (case (rs current_region, rs target_region_id) of
                                  (Some source_region, Some target_region) \<Rightarrow>
                                    communication_noise_factor source_region target_region
                                | _ \<Rightarrow> 0)
                   in (Inr (succeeded ''send_message'' aid
                              [(''target_agent'', target_agent),
                               (''content'', content),
                               (''noise_factor'', JNum noise),
                               (''sender_region'', JStr current_region),
                               (''receiver_region'', JStr target_region_id)] t),
                       p', rs)))))"

definition resolve_observe :: handler where
  "resolve_observe rs aid p current_region params t base_costs all_agents =
     debit_then p base_costs rs
       (failed ''observe'' aid t ''Insufficient resources'')
       (\<lambda>p'.
          (let visible_agents = (case rs current_region of
                                   None \<Rightarrow> []
                                 | Some r \<Rightarrow> map JStr (current_agents r));
               region_info = (case rs current_region of
                                None \<Rightarrow> JObj []
                              | Some r \<Rightarrow> region_to_dict r)
           in (Inr (succeeded ''observe'' aid
                      [(''region'', region_info),
                       (''visible_agents'', JArr visible_agents),
                       (''tick'', JNum (of_int t))] t),
               p', rs)))"

definition resolve_fork :: handler where
  "resolve_fork rs aid p current_region params t base_costs all_agents =
     debit_then p base_costs rs
       (failed ''fork'' aid t ''Insufficient resources for fork'')
       (\<lambda>p'.
          (let child_name = (case params ''child_name'' of
                               None \<Rightarrow> JStr (aid @ ''_fork_'' @ str_int t)
                             | Some v \<Rightarrow> v)
           in (Inr (succeeded ''fork'' aid
                      [(''child_name'', child_name),
                       (''parent_agent'', JStr aid),
                       (''spawn_region'', JStr current_region)] t),
               p', rs)))"

text \<open>
  \<^verbatim>\<open>not target_agent or target_agent not in all_agents\<close>, the target check of merge, attack
  and ally: \<open>Inr None\<close> when the check rejects the target.
\<close>

definition known_target ::
  "(string \<rightharpoonup> AgentSummary) \<Rightarrow> json \<Rightarrow> py_error + AgentSummary option" where
  "known_target all_agents target_agent =
     (if \<not> truthy target_agent then Inr None else dict_get all_agents target_agent)"

definition resolve_merge :: handler where
  "resolve_merge rs aid p current_region params t base_costs all_agents =
     (let target_agent = pget params ''target_agent'' in
      case known_target all_agents target_agent of
        Inl e \<Rightarrow> (Inl e, p, rs)
      | Inr None \<Rightarrow> (Inr (failed ''merge'' aid t ''Invalid merge target''), p, rs)
      | Inr (Some _) \<Rightarrow>
          debit_then p base_costs rs
            (failed ''merge'' aid t ''Insufficient resources for merge'')
            (\<lambda>p'. (Inr (succeeded ''merge'' aid
                           [(''absorbed_agent'', target_agent),
                            (''surviving_agent'', JStr aid)] t),
                    p', rs)))"

definition resolve_attack :: handler where
  "resolve_attack rs aid p current_region params t base_costs all_agents =
     (let target_agent = pget params ''target_agent'' in
      case known_target all_agents target_agent of
        Inl e \<Rightarrow> (Inl e, p, rs)
      | Inr None \<Rightarrow> (Inr (failed ''attack'' aid t ''Invalid attack target''), p, rs)
      | Inr (Some target) \<Rightarrow>
          if summary_region target \<noteq> current_region
          then (Inr (failed ''attack'' aid t ''Target not in same region''), p, rs)
          else
            debit_then p base_costs rs
              (failed ''attack'' aid t ''Insufficient resources for attack'')
              (\<lambda>p'.
                 (let attacker_strength = held p' COMPUTE + held p' ENERGY;
                      danger = (case rs current_region of None \<Rightarrow> 0 | Some r \<Rightarrow> danger_level r)
                  in (Inr (succeeded ''attack'' aid
                             [(''target_agent'', target_agent),
                              (''attacker_strength'', JNum attacker_strength),
                              (''region_danger'', JNum danger)] t),
                      p', rs))))"

definition resolve_ally :: handler where
  "resolve_ally rs aid p current_region params t base_costs all_agents =
     (let target_agent = pget params ''target_agent'' in
      case known_target all_agents target_agent of
        Inl e \<Rightarrow> (Inl e, p, rs)
      | Inr None \<Rightarrow> (Inr (failed ''ally'' aid t ''Invalid ally target''), p, rs)
      | Inr (Some _) \<Rightarrow>
          debit_then p base_costs rs
            (failed ''ally'' aid t ''Insufficient resources'')
            (\<lambda>p'. (Inr (succeeded ''ally'' aid
                           [(''target_agent'', target_agent),
                            (''status'', JStr ''proposed'')] t),
                    p', rs)))"

text \<open>\<^verbatim>\<open>getattr(self, "_resolve_" + action_type, None)\<close>: the handlers the class defines.\<close>

definition handler_of :: "string \<Rightarrow> handler option" where
  "handler_of atype =
     (if atype = ''move'' then Some resolve_move
      else if atype = ''trade'' then Some resolve_trade
      else if atype = ''send_message'' then Some resolve_send_message
      else if atype = ''observe'' then Some resolve_observe
      else if atype = ''fork'' then Some resolve_fork
      else if atype = ''merge'' then Some resolve_merge
      else if atype = ''attack'' then Some resolve_attack
      else if atype = ''ally'' then Some resolve_ally
      else None)"

definition validate_and_resolve ::
  "regions \<Rightarrow> string \<Rightarrow> string \<Rightarrow> ResourcePool \<Rightarrow> string \<Rightarrow> (string \<rightharpoonup> json) \<Rightarrow> int
     \<Rightarrow> (string \<rightharpoonup> AgentSummary) \<Rightarrow> resolution" where
  "validate_and_resolve rs atype aid agent_resources agent_region params t all_agents =
     (case handler_of atype of
        None \<Rightarrow> (Inr (failed atype aid t (''Unknown action type: '' @ atype)), agent_resources, rs)
      | Some h \<Rightarrow>
          (let base_costs = (case map_of ACTION_COSTS atype of None \<Rightarrow> [] | Some cs \<Rightarrow> cs) in
           if base_costs = []
           then (Inr (failed atype aid t (''No cost definition for action: '' @ atype)),
                 agent_resources, rs)
           else h rs aid agent_resources agent_region params t base_costs all_agents))"

text \<open>
  \<^verbatim>\<open>apply_danger\<close>: returns the death result, if any, and the pool it has written to.
\<close>

definition apply_danger ::
  "regions \<Rightarrow> string \<Rightarrow> ResourcePool \<Rightarrow> string \<Rightarrow> int \<Rightarrow> ActionResult option \<times> ResourcePool" where
  "apply_danger rs aid p rid t =
     (case rs rid of
        None \<Rightarrow> (None, p)
      | Some r \<Rightarrow>
          if danger_level r \<le> 0 then (None, p)
          else
            (let energy_drain = danger_level r * 5;
                 current_energy = held p ENERGY;
                 p' = p\<lparr>holdings := (holdings p)(ENERGY \<mapsto> max 0 (current_energy - energy_drain))\<rparr>
             in if held p' ENERGY \<le> 0
                then (Some (succeeded ''death'' aid
                              [(''cause'', JStr ''energy_depletion''),
                               (''region'', JStr rid),
                               (''danger_level'', JNum (danger_level r))] t),
                      p')
                else (None, p')))"

section \<open>Tick engine (world/engine.py)\<close>

record QueuedAction =
  queued_agent_id :: string
  queued_action_type :: string
  params :: "string \<rightharpoonup> json"
  submitted_at_tick :: int
  valid_for_ticks :: int

text \<open>
  A step of the engine returns the world it has written to, with \<open>Some e\<close> when an exception
  \<open>e\<close> escaped it (the tick loop logs it and abandons the tick). Agent and region ids are
  strings in the model, as the source's annotations say; where a decoded JSON value that is
  not a string would be stored as an id, the model stops with \<open>NonStringId\<close>.
\<close>

type_synonym effect = "py_error option \<times> WorldState"

definition set_agent :: "WorldState \<Rightarrow> string \<Rightarrow> AgentState \<Rightarrow> WorldState" where
  "set_agent w k a = w\<lparr>agents := AList.update k a (agents w)\<rparr>"

definition mark_dead :: "WorldState \<Rightarrow> string \<Rightarrow> int \<Rightarrow> WorldState" where
  "mark_dead w k t =
     (case get_agent w k of
        None \<Rightarrow> w
      | Some a \<Rightarrow> world_remove_agent (set_agent w k (a\<lparr>status := ''dead'', died_at_tick := Some t\<rparr>)) k)"

definition side_effect_move :: "ActionResult \<Rightarrow> string \<Rightarrow> AgentState \<Rightarrow> WorldState \<Rightarrow> effect" where
  "side_effect_move result akey agent w =
     (case map_of (details result) ''to_region'' of
        None \<Rightarrow> (Some KeyError, w)
      | Some (JStr rid) \<Rightarrow> (None, set_agent w akey (agent\<lparr>region := rid\<rparr>))
      | Some _ \<Rightarrow> (Some NonStringId, w))"

definition side_effect_fork :: "ActionResult \<Rightarrow> string \<Rightarrow> AgentState \<Rightarrow> WorldState \<Rightarrow> effect" where
  "side_effect_fork result akey agent w =
     (let child_id = (case map_of (details result) ''child_name'' of
                        None \<Rightarrow> JStr (agent_id agent @ ''_fork'')
                      | Some v \<Rightarrow> v);
          halved = (\<lambda>r. map_option (\<lambda>v. v / 2) (holdings (resources agent) r));
          parent = agent\<lparr>resources := (resources agent)\<lparr>holdings := halved\<rparr>\<rparr>;
          w1 = set_agent w akey parent
      in case child_id of
           JStr cid \<Rightarrow>
             (let child = \<lparr>agent_id = cid, display_name = cid, public_key = public_key agent,
                           region = region agent,
                           resources = create_default\<lparr>holdings :=
                             (\<lambda>r. case halved r of
                                     None \<Rightarrow> holdings create_default r
                                   | Some half \<Rightarrow> Some half)\<rparr>,
                           status = status agent, owner_identity = owner_identity agent,
                           claim_token = None, claim_token_expires = None, alliances = [],
                           created_at_tick = result_tick result, died_at_tick = None,
                           parent_agent = Some (agent_id agent), metadata = []\<rparr>
              in (None, world_add_agent w1 child))
         | JArr _ \<Rightarrow> (Some TypeError, w1)
         | JObj _ \<Rightarrow> (Some TypeError, w1)
         | _ \<Rightarrow> (Some NonStringId, w1))"

text \<open>\<^verbatim>\<open>world_state.get_agent(key)\<close> for a key read out of a result's details.\<close>

definition find_agent :: "WorldState \<Rightarrow> json \<Rightarrow> py_error + (string \<times> AgentState) option" where
  "find_agent w k =
     (case k of
        JStr s \<Rightarrow> Inr (map_option (Pair s) (get_agent w s))
      | JArr _ \<Rightarrow> Inl TypeError
      | JObj _ \<Rightarrow> Inl TypeError
      | _ \<Rightarrow> Inr None)"

text \<open>A JSON value as the left operand of \<^verbatim>\<open>* 0.3\<close>: \<open>None\<close> stands for the TypeError.\<close>

definition as_number :: "json \<Rightarrow> real option" where
  "as_number v =
     (case v of JNum r \<Rightarrow> Some r | JBool b \<Rightarrow> Some (if b then 1 else 0) | _ \<Rightarrow> None)"

definition side_effect_merge :: "ActionResult \<Rightarrow> string \<Rightarrow> AgentState \<Rightarrow> WorldState \<Rightarrow> effect" where
  "side_effect_merge result akey agent w =
     (case map_of (details result) ''absorbed_agent'' of
        None \<Rightarrow> (Some KeyError, w)
      | Some absorbed_id \<Rightarrow>
          (case find_agent w absorbed_id of
             Inl e \<Rightarrow> (Some e, w)
           | Inr None \<Rightarrow> (None, w)
           | Inr (Some (bid, absorbed)) \<Rightarrow>
               (let merged = (\<lambda>r. case holdings (resources absorbed) r of
                                     None \<Rightarrow> holdings (resources agent) r
                                   | Some amount \<Rightarrow>
                                       Some (min (held (resources agent) r + amount)
                                                 (case caps (resources agent) r of
                                                    None \<Rightarrow> 100 | Some c \<Rightarrow> c)));
                    w1 = set_agent w akey (agent\<lparr>resources := (resources agent)\<lparr>holdings := merged\<rparr>\<rparr>)
                in (None, mark_dead w1 bid (result_tick result)))))"

definition side_effect_attack :: "ActionResult \<Rightarrow> string \<Rightarrow> AgentState \<Rightarrow> WorldState \<Rightarrow> effect" where
  "side_effect_attack result akey agent w =
     (case map_of (details result) ''target_agent'' of
        None \<Rightarrow> (Some KeyError, w)
      | Some target_id \<Rightarrow>
          (case find_agent w target_id of
             Inl e \<Rightarrow> (Some e, w)
           | Inr None \<Rightarrow> (None, w)
           | Inr (Some (tid, target)) \<Rightarrow>
               (case map_of (details result) ''attacker_strength'' of
                  None \<Rightarrow> (Some KeyError, w)
                | Some strength \<Rightarrow>
                    (case as_number strength of
                       None \<Rightarrow> (Some TypeError, w)
                     | Some attacker_strength \<Rightarrow>
                         (let damage = attacker_strength * (3 / 10);
                              target_energy = held (resources target) ENERGY;
                              hit = target\<lparr>resources := (resources target)\<lparr>holdings :=
                                      (holdings (resources target))
                                        (ENERGY \<mapsto> max 0 (target_energy - damage))\<rparr>\<rparr>;
                              w1 = set_agent w tid hit
                          in if held (resources hit) ENERGY \<le> 0
                             then (None, mark_dead w1 tid (result_tick result))
                             else (None, w1))))))"

definition side_effect_ally :: "ActionResult \<Rightarrow> string \<Rightarrow> AgentState \<Rightarrow> WorldState \<Rightarrow> effect" where
  "side_effect_ally result akey agent w =
     (case map_of (details result) ''target_agent'' of
        None \<Rightarrow> (Some KeyError, w)
      | Some (JStr tid) \<Rightarrow>
          (let agent' = (if tid \<notin> set (alliances agent)
                         then agent\<lparr>alliances := alliances agent @ [tid]\<rparr> else agent);
               w1 = set_agent w akey agent'
           in (None, w1\<lparr>alliance_proposals := alliance_proposals w1 @
                          [\<lparr>proposal_from = agent_id agent, proposal_to = tid,
                            proposal_tick = result_tick result\<rparr>]\<rparr>))
      | Some _ \<Rightarrow> (Some NonStringId, w))"

text \<open>
  \<^verbatim>\<open>_apply_side_effects(result, agent)\<close>; \<open>akey\<close> is the key under which the engine found
  \<open>agent\<close>. An agent the map no longer holds under \<open>akey\<close> cannot occur: the engine has just
  looked it up.
\<close>

definition apply_side_effects :: "ActionResult \<Rightarrow> string \<Rightarrow> WorldState \<Rightarrow> effect" where
  "apply_side_effects result akey w =
     (case get_agent w akey of
        None \<Rightarrow> (None, w)
      | Some agent \<Rightarrow>
          if action_type result = ''move'' then side_effect_move result akey agent w
          else if action_type result = ''fork'' then side_effect_fork result akey agent w
          else if action_type result = ''merge'' then side_effect_merge result akey agent w
          else if action_type result = ''attack'' then side_effect_attack result akey agent w
          else if action_type result = ''ally'' then side_effect_ally result akey agent w
          else (None, w))"

text \<open>The body of the loop that resolves the drained queue, one action at a time.\<close>

definition resolve_queued ::
  "int \<Rightarrow> (string \<rightharpoonup> AgentSummary) \<Rightarrow> QueuedAction \<Rightarrow> WorldState \<times> ActionResult list
     \<Rightarrow> py_error option \<times> WorldState \<times> ActionResult list" where
  "resolve_queued t all_agents_summary action st =
     (case st of (w, results) \<Rightarrow>
        (case get_agent w (queued_agent_id action) of
           None \<Rightarrow> (None, w, results)
         | Some agent \<Rightarrow>
             if \<not> is_alive agent then (None, w, results)
             else if status agent = ''unclaimed'' \<and> queued_action_type action \<noteq> ''observe''
             then (None, w, results @
                     [failed (queued_action_type action) (queued_agent_id action) t
                        ''Agent is unclaimed. Only observe actions are allowed.''])
             else
               (case validate_and_resolve (regions w) (queued_action_type action)
                       (queued_agent_id action) (resources agent) (region agent)
                       (params action) t all_agents_summary of
                  (outcome, p', rs') \<Rightarrow>
                    (let w1 = (set_agent w (queued_agent_id action) (agent\<lparr>resources := p'\<rparr>))
                                \<lparr>regions := rs'\<rparr>
                     in case outcome of
                          Inl e \<Rightarrow> (Some e, w1, results)
                        | Inr result \<Rightarrow>
                            if success result
                            then (case apply_side_effects result (queued_agent_id action) w1 of
                                    (err, w2) \<Rightarrow> (err, w2, results @ [result]))
                            else (None, w1, results @ [result])))))"


text \<open>The body of the per-agent loop of a tick: regeneration, then danger.\<close>

definition tick_effects :: "int \<Rightarrow> string \<Rightarrow> WorldState \<times> ActionResult list
     \<Rightarrow> WorldState \<times> ActionResult list" where
  "tick_effects t aid st =
     (case st of (w, results) \<Rightarrow>
        (case get_agent w aid of
           None \<Rightarrow> (w, results)
         | Some agent \<Rightarrow>
             if \<not> is_alive agent then (w, results)
             else
               (let multiplier = (case regions w (region agent) of
                                    None \<Rightarrow> 1
                                  | Some r \<Rightarrow> resource_multiplier r);
                    regenerated = regenerate (resources agent) multiplier
                in case apply_danger (regions w) aid regenerated (region agent) t of
                     (None, p') \<Rightarrow> (set_agent w aid (agent\<lparr>resources := p'\<rparr>), results)
                   | (Some death, p') \<Rightarrow>
                       (world_remove_agent
                          (set_agent w aid
                             (agent\<lparr>resources := p', status := ''dead'', died_at_tick := Some t\<rparr>))
                          aid,
                        results @ [death]))))"



section \<open>Lifecycle (agents/lifecycle.py)\<close>

record LifecycleManager =
  claim_attempts :: "string \<rightharpoonup> nat"

definition MAX_CLAIM_ATTEMPTS :: nat where
  "MAX_CLAIM_ATTEMPTS = 5"

definition get_agent_by_claim_token :: "WorldState \<Rightarrow> string \<Rightarrow> (string \<times> AgentState) option" where
  "get_agent_by_claim_token w token = find (\<lambda>(k, a). claim_token a = Some token) (agents w)"

text \<open>
  \<^verbatim>\<open>validate_claim_token\<close>; \<open>now\<close> is what \<^verbatim>\<open>time.time()\<close> returns. The agent comes back
  with the key it is stored under.
\<close>

definition validate_claim_token ::
  "WorldState \<Rightarrow> LifecycleManager \<Rightarrow> real \<Rightarrow> string
     \<Rightarrow> (py_error + string \<times> AgentState) \<times> LifecycleManager" where
  "validate_claim_token w lm now token =
     (let attempts = (case claim_attempts lm token of None \<Rightarrow> 0 | Some n \<Rightarrow> n) in
      if attempts \<ge> MAX_CLAIM_ATTEMPTS
      then (Inl (ClaimError ''Too many claim attempts for this token''), lm)
      else
        (let lm' = lm\<lparr>claim_attempts := (claim_attempts lm)(token \<mapsto> attempts + 1)\<rparr> in
         case get_agent_by_claim_token w token of
           None \<Rightarrow> (Inl (ClaimError ''Invalid or expired claim token''), lm')
         | Some (k, agent) \<Rightarrow>
             if status agent \<noteq> ''unclaimed''
             then (Inl (ClaimError ''Agent already claimed or dead''), lm')
             else if (case claim_token_expires agent of
                        None \<Rightarrow> False
                      | Some expires \<Rightarrow> expires \<noteq> 0 \<and> now > expires)
             then (Inl (ClaimError ''Claim token expired''), lm')
             else (Inr (k, agent), lm')))"

definition claim_agent ::
  "WorldState \<Rightarrow> LifecycleManager \<Rightarrow> real \<Rightarrow> string \<Rightarrow> string \<Rightarrow> string
     \<Rightarrow> (py_error + (string \<times> json) list) \<times> WorldState \<times> LifecycleManager" where
  "claim_agent w lm now token owner verification_method =
     (case validate_claim_token w lm now token of
        (Inl e, lm') \<Rightarrow> (Inl e, w, lm')
      | (Inr (k, agent), lm') \<Rightarrow>
          (Inr [(''success'', JBool True),
                (''agent_id'', JStr (agent_id agent)),
                (''display_name'', JStr (display_name agent)),
                (''owner_identity'', JStr owner),
                (''verification_method'', JStr verification_method),
                (''status'', JStr ''claimed'')],
           set_agent w k (agent\<lparr>status := ''claimed'', owner_identity := Some owner,
                                claim_token := None, claim_token_expires := None\<rparr>),
           lm'))"

definition kill_agent :: "WorldState \<Rightarrow> string \<Rightarrow> string \<Rightarrow> int \<Rightarrow> bool \<times> WorldState" where
  "kill_agent w aid cause t =
     (case get_agent w aid of
        None \<Rightarrow> (False, w)
      | Some agent \<Rightarrow> if \<not> is_alive agent then (False, w) else (True, mark_dead w aid t))"

definition upper_char :: "char \<Rightarrow> char" where
  "upper_char c =
     (if (97::nat) \<le> of_char c \<and> of_char c \<le> (122::nat) then char_of (of_char c - (32::nat)) else c)"

definition get_verification_phrase ::
  "WorldState \<Rightarrow> LifecycleManager \<Rightarrow> real \<Rightarrow> string
     \<Rightarrow> (py_error + (string \<times> json) list) \<times> LifecycleManager" where
  "get_verification_phrase w lm now token =
     (case validate_claim_token w lm now token of
        (Inl e, lm') \<Rightarrow> (Inl e, lm')
      | (Inr (k, agent), lm') \<Rightarrow>
          (let short_code = map upper_char (take 8 token);
               phrase = ''I am verifying ownership of my agent on The Observatory. Code: '' @ short_code
           in (Inr [(''agent_id'', JStr (agent_id agent)),
                    (''display_name'', JStr (display_name agent)),
                    (''verification_phrase'', JStr phrase),
                    (''short_code'', JStr short_code),
                    (''instructions'',
                     JStr ''Tweet this exact text from the X account you want to associate with this agent.'')],
               lm')))"

section \<open>Registration (agents/interface.py)\<close>

record RegistrationResult =
  reg_success :: bool
  reg_agent_id :: "string option"
  reg_claim_token :: "string option"
  claim_url :: "string option"
  initial_spawn_region :: "string option"
  initial_resources :: "(string \<times> real) list option"
  reg_error :: "string option"

definition registration_failed :: "string \<Rightarrow> RegistrationResult" where
  "registration_failed msg =
     \<lparr>reg_success = False, reg_agent_id = None, reg_claim_token = None, claim_url = None,
      initial_spawn_region = None, initial_resources = None, reg_error = Some msg\<rparr>"

definition pool_to_dict :: "ResourcePool \<Rightarrow> (string \<times> real) list" where
  "pool_to_dict p =
     concat (map (\<lambda>r. case holdings p r of None \<Rightarrow> [] | Some v \<Rightarrow> [(rtype_value r, v)])
                 [ENERGY, BANDWIDTH, MEMORY, COMPUTE])"

fun starts_with :: "string \<Rightarrow> string \<Rightarrow> bool" where
  "starts_with s [] = True"
| "starts_with [] (c # cs) = False"
| "starts_with (d # ds) (c # cs) = (d = c \<and> starts_with ds cs)"

fun contains :: "string \<Rightarrow> string \<Rightarrow> bool" where
  "contains [] sub = (sub = [])"
| "contains (c # cs) sub = (starts_with (c # cs) sub \<or> contains cs sub)"

text \<open>
  The cryptography \<^verbatim>\<open>register_agent\<close> calls is library code (SHA-256, Ed25519 or HMAC),
  so it is a parameter of the model: \<open>verify_pow\<close>, \<open>verify_signed_nonce\<close> and
  \<open>generate_agent_id\<close> are the three functions of agents/identity.py, \<open>fresh_token\<close> is what
  \<^verbatim>\<open>generate_claim_token()\<close> returns and \<open>now\<close> what \<^verbatim>\<open>time.time()\<close> returns.
\<close>

record Identity =
  verify_pow :: "string \<Rightarrow> string \<Rightarrow> bool"
  verify_signed_nonce :: "string \<Rightarrow> string \<Rightarrow> string \<Rightarrow> bool"
  generate_agent_id :: "string \<Rightarrow> string"

definition register_agent ::
  "Identity \<Rightarrow> string \<Rightarrow> string \<Rightarrow> real \<Rightarrow> WorldState
     \<Rightarrow> string \<Rightarrow> string \<Rightarrow> string \<Rightarrow> string \<Rightarrow> string \<Rightarrow> string
     \<Rightarrow> (py_error + RegistrationResult) \<times> WorldState" where
  "register_agent idn domain fresh_token now w
       agent_public_key signed_nonce nonce pow_challenge pow_nonce agent_display_name =
     (if \<not> verify_pow idn pow_challenge pow_nonce
      then (Inr (registration_failed ''Invalid proof-of-work''), w)
      else if \<not> verify_signed_nonce idn agent_public_key nonce signed_nonce
      then (Inr (registration_failed ''Invalid signature''), w)
      else
        (let new_id = generate_agent_id idn agent_public_key in
         case get_agent w new_id of
           Some existing \<Rightarrow> (Inr (registration_failed ''Agent already registered''), w)
         | None \<Rightarrow>
             (case regions w ''nexus'' of
                None \<Rightarrow> (Inl KeyError, w)
              | Some spawn_region \<Rightarrow>
                  (let agent =
                         \<lparr>agent_id = new_id,
                          display_name = (if agent_display_name = [] then new_id
                                          else agent_display_name),
                          public_key = agent_public_key,
                          region = region_id spawn_region,
                          resources = create_default,
                          status = ''unclaimed'', owner_identity = None,
                          claim_token = Some fresh_token,
                          claim_token_expires = Some (now + 86400),
                          alliances = [], created_at_tick = tick w, died_at_tick = None,
                          parent_agent = None, metadata = []\<rparr>;
                       scheme = (if contains domain ''localhost'' \<or> contains domain ''127.0.0.1''
                                 then ''http'' else ''https'')
                   in (Inr \<lparr>reg_success = True, reg_agent_id = Some new_id,
                            reg_claim_token = Some fresh_token,
                            claim_url = Some (scheme @ ''://'' @ domain @ ''/claim/'' @ fresh_token),
                            initial_spawn_region = Some (region_id spawn_region),
                            initial_resources = Some (pool_to_dict create_default),
                            reg_error = None\<rparr>,
                       world_add_agent w agent)))))"

section \<open>Trade (economy/trade.py, economy/accounting.py)\<close>

record Transaction =
  transaction_id :: string
  tx_tick :: int
  tx_from_agent :: string
  tx_to_agent :: string
  resource_type :: string
  amount :: real
  timestamp :: real
  tx_metadata :: "(string \<times> json) list"

record AccountingLedger =
  transactions :: "Transaction list"
  next_tx_id :: nat

text \<open>\<^verbatim>\<open>f"{n:08d}"\<close>: decimal, padded with zeros to eight digits.\<close>

definition pad8 :: "nat \<Rightarrow> string" where
  "pad8 n = replicate (8 - length (str_nat n)) (CHR ''0'') @ str_nat n"

definition record_transfer ::
  "AccountingLedger \<Rightarrow> real \<Rightarrow> int \<Rightarrow> string \<Rightarrow> string \<Rightarrow> string \<Rightarrow> real
     \<Rightarrow> (string \<times> json) list \<Rightarrow> AccountingLedger" where
  "record_transfer acc now t from_id to_id rtype amt meta =
     \<lparr>transactions = transactions acc @
        [\<lparr>transaction_id = ''tx_'' @ pad8 (next_tx_id acc), tx_tick = t, tx_from_agent = from_id,
          tx_to_agent = to_id, resource_type = rtype, amount = amt, timestamp = now,
          tx_metadata = meta\<rparr>],
      next_tx_id = next_tx_id acc + 1\<rparr>"

record TradeOffer =
  offer_id :: string
  offer_tick :: int
  from_agent :: string
  to_agent :: string
  offer_resource :: string
  offer_amount :: real
  request_resource :: string
  request_amount :: real
  offer_status :: string
  created_at :: real
  expires_at_tick :: int

record TradeManager =
  offers :: "(string \<times> TradeOffer) list"
  next_id :: nat
  accounting :: AccountingLedger

definition OFFER_WINDOW_TICKS :: int where
  "OFFER_WINDOW_TICKS = 10"

definition create_offer ::
  "TradeManager \<Rightarrow> real \<Rightarrow> int \<Rightarrow> string \<Rightarrow> string \<Rightarrow> string \<Rightarrow> real \<Rightarrow> string \<Rightarrow> real
     \<Rightarrow> TradeOffer \<times> TradeManager" where
  "create_offer tm now t from_id to_id offer_res offer_amt request_res request_amt =
     (let offer = \<lparr>offer_id = ''trade_'' @ pad8 (next_id tm), offer_tick = t,
                   from_agent = from_id, to_agent = to_id,
                   offer_resource = offer_res, offer_amount = offer_amt,
                   request_resource = request_res, request_amount = request_amt,
                   offer_status = ''pending'', created_at = now,
                   expires_at_tick = t + OFFER_WINDOW_TICKS\<rparr>
      in (offer, tm\<lparr>offers := AList.update (offer_id offer) offer (offers tm),
                    next_id := next_id tm + 1\<rparr>))"

definition set_offer_status :: "TradeManager \<Rightarrow> string \<Rightarrow> TradeOffer \<Rightarrow> string \<Rightarrow> TradeManager" where
  "set_offer_status tm oid offer st =
     tm\<lparr>offers := AList.update oid (offer\<lparr>offer_status := st\<rparr>) (offers tm)\<rparr>"

definition trade_refused :: "string \<Rightarrow> (string \<times> json) list" where
  "trade_refused msg = [(''success'', JBool False), (''error'', JStr msg)]"

text \<open>\<^verbatim>\<open>agent.resources.holdings[rtype] -= amount\<close> on the agent stored under \<open>k\<close>.\<close>

definition debit_agent :: "WorldState \<Rightarrow> string \<Rightarrow> ResourceType \<Rightarrow> real \<Rightarrow> py_error + WorldState" where
  "debit_agent w k r amt =
     (case get_agent w k of
        None \<Rightarrow> Inr w
      | Some a \<Rightarrow>
          (case holdings (resources a) r of
             None \<Rightarrow> Inl KeyError
           | Some v \<Rightarrow>
               Inr (set_agent w k
                      (a\<lparr>resources := (resources a)\<lparr>holdings := (holdings (resources a))(r \<mapsto> v - amt)\<rparr>\<rparr>))))"

text \<open>\<^verbatim>\<open>holdings[rtype] = holdings.get(rtype, 0) + amount\<close> on the agent stored under \<open>k\<close>.\<close>

definition credit_agent :: "WorldState \<Rightarrow> string \<Rightarrow> ResourceType \<Rightarrow> real \<Rightarrow> WorldState" where
  "credit_agent w k r amt =
     (case get_agent w k of
        None \<Rightarrow> w
      | Some a \<Rightarrow>
          set_agent w k
            (a\<lparr>resources := (resources a)\<lparr>holdings :=
                 (holdings (resources a))(r \<mapsto> held (resources a) r + amt)\<rparr>\<rparr>))"

text \<open>
  \<^verbatim>\<open>accept_offer\<close>. The two agents are looked up once, by the ids the offer names; the
  four writes then go to those agents in the order of the source, so an offer an agent made
  to itself writes four times to one pool.
\<close>

definition accept_offer ::
  "TradeManager \<Rightarrow> WorldState \<Rightarrow> real \<Rightarrow> string \<Rightarrow> string \<Rightarrow> int
     \<Rightarrow> (py_error + (string \<times> json) list) \<times> TradeManager \<times> WorldState" where
  "accept_offer tm w now oid accepting_agent t =
     (case map_of (offers tm) oid of
        None \<Rightarrow> (Inr (trade_refused ''Offer not found''), tm, w)
      | Some offer \<Rightarrow>
          if offer_status offer \<noteq> ''pending''
          then (Inr (trade_refused (''Offer is '' @ offer_status offer)), tm, w)
          else if to_agent offer \<noteq> accepting_agent
          then (Inr (trade_refused ''Not the intended recipient''), tm, w)
          else if t > expires_at_tick offer
          then (Inr (trade_refused ''Offer expired''), set_offer_status tm oid offer ''expired'', w)
          else
            (case (get_agent w (from_agent offer), get_agent w (to_agent offer)) of
               (None, _) \<Rightarrow>
                 (Inr (trade_refused ''Offering agent not available''),
                  set_offer_status tm oid offer ''rejected'', w)
             | (Some from_a, to_opt) \<Rightarrow>
                 if \<not> is_alive from_a
                 then (Inr (trade_refused ''Offering agent not available''),
                       set_offer_status tm oid offer ''rejected'', w)
                 else
                   (case to_opt of
                      None \<Rightarrow>
                        (Inr (trade_refused ''Accepting agent not available''),
                         set_offer_status tm oid offer ''rejected'', w)
                    | Some to_a \<Rightarrow>
                        if \<not> is_alive to_a
                        then (Inr (trade_refused ''Accepting agent not available''),
                              set_offer_status tm oid offer ''rejected'', w)
                        else
                          (case (ResourceType_of (offer_resource offer),
                                 ResourceType_of (request_resource offer)) of
                             (Some offer_rtype, Some request_rtype) \<Rightarrow>
                               if held (resources from_a) offer_rtype < offer_amount offer
                               then (Inr (trade_refused ''Offerer has insufficient resources''),
                                     set_offer_status tm oid offer ''rejected'', w)
                               else if held (resources to_a) request_rtype < request_amount offer
                               then (Inr (trade_refused ''Accepter has insufficient resources''),
                                     set_offer_status tm oid offer ''rejected'', w)
                               else
                                 (case debit_agent w (from_agent offer) offer_rtype (offer_amount offer) of
                                    Inl e \<Rightarrow> (Inl e, tm, w)
                                  | Inr w1 \<Rightarrow>
                                      (let w2 = credit_agent w1 (to_agent offer) offer_rtype
                                                  (offer_amount offer)
                                       in case debit_agent w2 (to_agent offer) request_rtype
                                                 (request_amount offer) of
                                            Inl e \<Rightarrow> (Inl e, tm, w2)
                                          | Inr w3 \<Rightarrow>
                                              (let w4 = credit_agent w3 (from_agent offer) request_rtype
                                                          (request_amount offer);
                                                   tm1 = set_offer_status tm oid offer ''executed'';
                                                   meta = [(''trade_id'', JStr (offer_id offer))];
                                                   acc1 = record_transfer (accounting tm1) now t
                                                            (from_agent offer) (to_agent offer)
                                                            (offer_resource offer) (offer_amount offer) meta;
                                                   acc2 = record_transfer acc1 now t
                                                            (to_agent offer) (from_agent offer)
                                                            (request_resource offer)
                                                            (request_amount offer) meta
                                               in (Inr [(''success'', JBool True),
                                                        (''offer_id'', JStr (offer_id offer)),
                                                        (''executed_at_tick'', JNum (of_int t))],
                                                   tm1\<lparr>accounting := acc2\<rparr>, w4))))
                           | _ \<Rightarrow>
                               (Inr (trade_refused ''Invalid resource type''),
                                set_offer_status tm oid offer ''rejected'', w)))))"

section \<open>Inputs used in the examples\<close>

text \<open>What a cost table takes from one resource kind, summed over its rows.\<close>

definition total_cost :: "costs \<Rightarrow> ResourceType \<Rightarrow> real" where
  "total_cost cs r = sum_list (map snd (filter (\<lambda>c. fst c = r) cs))"

definition ex_pool :: "real \<Rightarrow> real \<Rightarrow> real \<Rightarrow> real \<Rightarrow> ResourcePool" where
  "ex_pool e b m c =
     \<lparr>holdings = [ENERGY \<mapsto> e, BANDWIDTH \<mapsto> b, MEMORY \<mapsto> m, COMPUTE \<mapsto> c],
      caps = (\<lambda>r. Some (default_cap r))\<rparr>"

definition ex_regions :: regions where
  "ex_regions = initialize_defaults Map.empty"

definition ex_summary :: "string \<rightharpoonup> AgentSummary" where
  "ex_summary = [''a'' \<mapsto> \<lparr>summary_region = ''nexus'', summary_status = ''claimed''\<rparr>,
                 ''b'' \<mapsto> \<lparr>summary_region = ''nexus'', summary_status = ''claimed''\<rparr>]"

definition ex_agent :: "string \<Rightarrow> string \<Rightarrow> string \<Rightarrow> ResourcePool \<Rightarrow> string \<Rightarrow> AgentState" where
  "ex_agent aid pk rid pool st =
     \<lparr>agent_id = aid, display_name = aid, public_key = pk, region = rid, resources = pool,
      status = st, owner_identity = None, claim_token = None, claim_token_expires = None,
      alliances = [], created_at_tick = 0, died_at_tick = None, parent_agent = None,
      metadata = []\<rparr>"

definition empty_world :: WorldState where
  "empty_world = \<lparr>tick = 0, agents = [], regions = ex_regions, pending_trades = [],
                   alliance_proposals = []\<rparr>"

definition duel_world :: WorldState where
  "duel_world =
     world_add_agent
       (world_add_agent empty_world (ex_agent ''a'' ''pk_a'' ''wasteland'' (ex_pool 50 25 100 40) ''claimed''))
       (ex_agent ''b'' ''pk_b'' ''wasteland'' (ex_pool 50 25 100 40) ''claimed'')"

definition attack_b :: QueuedAction where
  "attack_b = \<lparr>queued_agent_id = ''a'', queued_action_type = ''attack'',
               params = [''target_agent'' \<mapsto> JStr ''b''], submitted_at_tick = 0,
               valid_for_ticks = 1\<rparr>"

definition attack_result :: ActionResult where
  "attack_result = succeeded ''attack'' ''a''
      [(''target_agent'', JStr ''b''), (''attacker_strength'', JNum 65),
       (''region_danger'', JNum (case ex_regions ''wasteland'' of None \<Rightarrow> 0 | Some r \<Rightarrow> danger_level r))] 1"

definition dead_summary :: "string \<rightharpoonup> AgentSummary" where
  "dead_summary = [''a'' \<mapsto> \<lparr>summary_region = ''nexus'', summary_status = ''claimed''\<rparr>,
                   ''b'' \<mapsto> \<lparr>summary_region = ''nexus'', summary_status = ''dead''\<rparr>]"

definition bad_trade_params :: "string \<rightharpoonup> json" where
  "bad_trade_params =
     [''target_agent'' \<mapsto> JStr ''b'', ''offer_resource'' \<mapsto> JStr ''gold'',
      ''offer_amount'' \<mapsto> JNum (- 5), ''request_resource'' \<mapsto> JStr ''favours'',
      ''request_amount'' \<mapsto> JNum (- 1)]"

definition good_trade_params :: "string \<rightharpoonup> json" where
  "good_trade_params =
     [''target_agent'' \<mapsto> JStr ''b'', ''offer_resource'' \<mapsto> JStr ''energy'',
      ''offer_amount'' \<mapsto> JNum 10, ''request_resource'' \<mapsto> JStr ''compute'',
      ''request_amount'' \<mapsto> JNum 5]"






section \<open>Identity invariants\<close>

text \<open>
  \<open>ids_match\<close>: every agent is stored under its own id. \<open>ids_derived\<close>: that id is the one
  derived from the agent's public key. \<open>id_key_bijective\<close>: no two entries of the agent map
  share a public key, and each is stored under its id. \<open>registered_world\<close>: the worlds
  reached from a world without agents by calls of \<open>register_agent\<close>.
\<close>

definition ids_match :: "WorldState \<Rightarrow> bool" where
  "ids_match w = (\<forall>k a. get_agent w k = Some a \<longrightarrow> agent_id a = k)"




definition test_identity :: Identity where
  "test_identity =
     \<lparr>verify_pow = (\<lambda>challenge pow_nonce. True),
      verify_signed_nonce = (\<lambda>pk nonce signature. True),
      generate_agent_id = (\<lambda>pk. ''agent_'' @ pk)\<rparr>"

definition alice :: AgentState where
  "alice =
     \<lparr>agent_id = ''agent_pk_a'', display_name = ''Alice'', public_key = ''pk_a'',
      region = ''nexus'', resources = create_default, status = ''unclaimed'',
      owner_identity = None, claim_token = Some ''tok_a'', claim_token_expires = Some 86400,
      alliances = [], created_at_tick = 0, died_at_tick = None, parent_agent = None,
      metadata = []\<rparr>"

definition reg_world :: WorldState where
  "reg_world =
     snd (register_agent test_identity ''localhost:8000'' ''tok_a'' 0 empty_world
            ''pk_a'' ''sig'' ''nonce'' ''challenge'' ''pow'' ''Alice'')"

definition claimed_world :: WorldState where
  "claimed_world =
     fst (snd (claim_agent reg_world \<lparr>claim_attempts = Map.empty\<rparr> 10 ''tok_a'' ''@alice'' ''x_tweet''))"


section \<open>Trade predicates\<close>

text \<open>
  \<open>held_by\<close> is what the agent stored under a key holds of a kind (0 when there is no such
  agent or it holds none). \<open>offer_acceptable\<close> lists the checks of acceptance: the offer
  exists, is pending, is addressed to the accepting agent, has not expired, both parties are
  in the map and alive, both resource strings name a kind, and each side holds what it
  gives. \<open>holds_kind\<close>: the agent's pool has an entry for the kind.
\<close>

definition held_by :: "WorldState \<Rightarrow> string \<Rightarrow> ResourceType \<Rightarrow> real" where
  "held_by w k r = (case get_agent w k of None \<Rightarrow> 0 | Some a \<Rightarrow> held (resources a) r)"

definition offer_acceptable :: "TradeManager \<Rightarrow> WorldState \<Rightarrow> string \<Rightarrow> string \<Rightarrow> int \<Rightarrow> bool" where
  "offer_acceptable tm w oid accepting_agent t =
     (case map_of (offers tm) oid of
        None \<Rightarrow> False
      | Some offer \<Rightarrow>
          offer_status offer = ''pending'' \<and> to_agent offer = accepting_agent
          \<and> t \<le> expires_at_tick offer
          \<and> (case (get_agent w (from_agent offer), get_agent w (to_agent offer),
                    ResourceType_of (offer_resource offer),
                    ResourceType_of (request_resource offer)) of
                (Some from_a, Some to_a, Some offer_rtype, Some request_rtype) \<Rightarrow>
                  is_alive from_a \<and> is_alive to_a
                  \<and> offer_amount offer \<le> held (resources from_a) offer_rtype
                  \<and> request_amount offer \<le> held (resources to_a) request_rtype
              | _ \<Rightarrow> False))"

definition holds_kind :: "WorldState \<Rightarrow> string \<Rightarrow> ResourceType \<Rightarrow> bool" where
  "holds_kind w k r = (\<exists>a v. get_agent w k = Some a \<and> holdings (resources a) r = Some v)"

definition no_offers :: TradeManager where
  "no_offers = \<lparr>offers = [], next_id = 0, accounting = \<lparr>transactions = [], next_tx_id = 0\<rparr>\<rparr>"

definition energy_for_compute :: TradeManager where
  "energy_for_compute = snd (create_offer no_offers 0 1 ''a'' ''b'' ''energy'' 10 ''compute'' 5)"

definition the_offer :: TradeOffer where
  "the_offer =
     \<lparr>offer_id = ''trade_00000000'', offer_tick = 1, from_agent = ''a'', to_agent = ''b'',
      offer_resource = ''energy'', offer_amount = 10, request_resource = ''compute'',
      request_amount = 5, offer_status = ''pending'', created_at = 0, expires_at_tick = 11\<rparr>"

definition near_cap_world :: WorldState where
  "near_cap_world =
     world_add_agent
       (world_add_agent empty_world (ex_agent ''a'' ''pk_a'' ''nexus'' (ex_pool 50 25 100 40) ''claimed''))
       (ex_agent ''b'' ''pk_b'' ''nexus'' (ex_pool 95 25 100 40) ''claimed'')"

section \<open>Claim routes (web/app.py)\<close>

text \<open>
  The two routes of the claim flow, down to the status code they answer with and the state
  they leave. \<open>claim_verify\<close> takes the owner identity as the route has stripped it, and
  answers 400 before it calls the lifecycle manager when it is empty. A sequence of requests
  for one token is served in order by \<open>serve_claim_requests\<close>; \<open>names_owner\<close> holds of
  the requests that reach the lifecycle manager. \<open>attempts_used\<close> reads a token's counter
  (\<^verbatim>\<open>_claim_attempts.get(token, 0)\<close>).
\<close>

definition claim_page :: "WorldState \<Rightarrow> LifecycleManager \<Rightarrow> real \<Rightarrow> string \<Rightarrow> nat \<times> LifecycleManager" where
  "claim_page w lm now token =
     (case get_verification_phrase w lm now token of
        (Inr info, lm') \<Rightarrow> (200, lm')
      | (Inl e, lm') \<Rightarrow> (400, lm'))"

definition claim_verify ::
  "WorldState \<Rightarrow> LifecycleManager \<Rightarrow> real \<Rightarrow> string \<Rightarrow> string \<Rightarrow> string
     \<Rightarrow> nat \<times> WorldState \<times> LifecycleManager" where
  "claim_verify w lm now token owner verification_method =
     (if owner = [] then (400, w, lm)
      else case claim_agent w lm now token owner verification_method of
             (Inr result, w', lm') \<Rightarrow> (200, w', lm')
           | (Inl e, w', lm') \<Rightarrow> (400, w', lm'))"

datatype ClaimRequest = GetClaimPage | PostClaimVerify string string

fun serve_claim_requests ::
  "string \<Rightarrow> (ClaimRequest \<times> real) list \<Rightarrow> WorldState \<times> LifecycleManager
     \<Rightarrow> WorldState \<times> LifecycleManager" where
  "serve_claim_requests token [] st = st"
| "serve_claim_requests token ((GetClaimPage, now) # rest) (w, lm) =
     serve_claim_requests token rest (w, snd (claim_page w lm now token))"
| "serve_claim_requests token ((PostClaimVerify owner m, now) # rest) (w, lm) =
     serve_claim_requests token rest (snd (claim_verify w lm now token owner m))"

definition names_owner :: "ClaimRequest \<times> real \<Rightarrow> bool" where
  "names_owner q = (case fst q of GetClaimPage \<Rightarrow> True | PostClaimVerify owner m \<Rightarrow> owner \<noteq> [])"

definition attempts_used :: "LifecycleManager \<Rightarrow> string \<Rightarrow> nat" where
  "attempts_used lm token = (case claim_attempts lm token of None \<Rightarrow> 0 | Some n \<Rightarrow> n)"

definition too_many :: py_error where
  "too_many = ClaimError ''Too many claim attempts for this token''"

section \<open>Inputs used in the examples of the claim flow\<close>

definition claimed :: "AgentState \<Rightarrow> string \<Rightarrow> AgentState" where
  "claimed agent owner =
     agent\<lparr>status := ''claimed'', owner_identity := Some owner,
            claim_token := None, claim_token_expires := None\<rparr>"

definition fresh_lifecycle :: LifecycleManager where
  "fresh_lifecycle = \<lparr>claim_attempts = Map.empty\<rparr>"

definition two_world :: WorldState where
  "two_world =
     snd (register_agent test_identity ''localhost:8000'' ''tok_b'' 20 claimed_world
            ''pk_b'' ''sig'' ''nonce'' ''challenge'' ''pow'' ''Bob'')"

definition merge_bob :: QueuedAction where
  "merge_bob = \<lparr>queued_agent_id = ''agent_pk_a'', queued_action_type = ''merge'',
                params = [''target_agent'' \<mapsto> JStr ''agent_pk_b''], submitted_at_tick = 0,
                valid_for_ticks = 1\<rparr>"

definition five_views :: "(ClaimRequest \<times> real) list" where
  "five_views = [(GetClaimPage, 1), (GetClaimPage, 2), (GetClaimPage, 3), (GetClaimPage, 4),
                 (GetClaimPage, 5)]"

text \<open>What a tick reads of a region: its multiplier and its danger level.\<close>

definition climate :: "WorldState \<Rightarrow> string \<Rightarrow> (real \<times> real) option" where
  "climate w rid = map_option (\<lambda>r. (resource_multiplier r, danger_level r)) (regions w rid)"

section \<open>Properties\<close>

subsection \<open>Cost deduction\<close>

lemma deduct_loop_not_False: "deduct_loop p cs \<noteq> (Inr False, p')"
  by (induction p cs rule: deduct_loop.induct) (auto split: option.splits)

lemma deduct_loop_True:
  "deduct_loop p cs = (Inr True, p') \<Longrightarrow>
     caps p' = caps p \<and> (\<forall>r. holdings p' r = map_option (\<lambda>v. v - total_cost cs r) (holdings p r))"
proof (induction p cs arbitrary: p' rule: deduct_loop.induct)
  case (1 p)
  then show ?case by (simp add: total_cost_def option.map_ident)
next
  case (2 p r amount cs)
  then obtain v where v: "holdings p r = Some v"
    by (cases "holdings p r") auto
  let ?q = "p\<lparr>holdings := (holdings p)(r \<mapsto> v - amount)\<rparr>"
  from 2(2) v have "deduct_loop ?q cs = (Inr True, p')" by simp
  from 2(1)[OF v this] show ?case
    using v by (auto simp: total_cost_def)
qed

lemma deduct_loop_present:
  "\<forall>c \<in> set cs. fst c \<in> dom (holdings p) \<Longrightarrow> \<exists>p'. deduct_loop p cs = (Inr True, p')"
proof (induction p cs rule: deduct_loop.induct)
  case (1 p)
  then show ?case by simp
next
  case (2 p r amount cs)
  then obtain v where v: "holdings p r = Some v" by auto
  have "\<forall>c\<in>set cs. fst c \<in> dom (holdings (p\<lparr>holdings := (holdings p)(r \<mapsto> v - amount)\<rparr>))"
    using 2(2) by auto
  from 2(1)[OF v this] show ?case using v by simp
qed

lemma can_afford_positive_present:
  "can_afford p cs \<Longrightarrow> \<forall>c \<in> set cs. 0 < snd c \<Longrightarrow> \<forall>c \<in> set cs. fst c \<in> dom (holdings p)"
  by (induction p cs rule: can_afford.induct) (auto simp: held_def split: if_splits option.splits)

lemma deduct_False_unchanged: "deduct p cs = (Inr False, p') \<Longrightarrow> p' = p"
  by (auto simp: deduct_def deduct_loop_not_False split: if_splits)

lemma debit_then_failed:
  assumes "debit_then p cs rs onfail k = (Inr res, p', rs')" and "\<not> success res"
    and "\<And>q res' q' rs''. k q = (Inr res', q', rs'') \<Longrightarrow> success res'"
  shows "p' = p \<and> rs' = rs"
proof (cases "deduct p cs")
  case (Pair out q)
  show ?thesis
  proof (cases out)
    case (Inl e)
    with Pair assms(1) show ?thesis by (simp add: debit_then_def)
  next
    case (Inr b)
    show ?thesis
    proof (cases b)
      case True
      with Pair Inr assms(1) have "k q = (Inr res, p', rs')" by (simp add: debit_then_def)
      with assms(2,3) show ?thesis by blast
    next
      case False
      with Pair Inr assms(1) have "q = p'" "rs' = rs" by (simp_all add: debit_then_def)
      moreover from Pair Inr False have "q = p" using deduct_False_unchanged by simp
      ultimately show ?thesis by simp
    qed
  qed
qed

lemma resolve_trade_failed:
  "resolve_trade rs aid p reg ps t cs aa = (Inr res, p', rs') \<Longrightarrow> \<not> success res \<Longrightarrow> p' = p \<and> rs' = rs"
  unfolding resolve_trade_def Let_def
  by (auto split: if_splits sum.splits option.splits simp: failed_def succeeded_def dest!: debit_then_failed)

subsection \<open>Failed actions\<close>

lemma resolve_move_failed:
  "resolve_move rs aid p reg ps t cs aa = (Inr res, p', rs') \<Longrightarrow> \<not> success res \<Longrightarrow> p' = p \<and> rs' = rs"
  unfolding resolve_move_def Let_def
  by (auto split: if_splits sum.splits option.splits json.splits simp: failed_def succeeded_def dest!: debit_then_failed)

lemma resolve_send_message_failed:
  "resolve_send_message rs aid p reg ps t cs aa = (Inr res, p', rs') \<Longrightarrow> \<not> success res \<Longrightarrow> p' = p \<and> rs' = rs"
  unfolding resolve_send_message_def Let_def
  by (auto split: if_splits sum.splits option.splits simp: failed_def succeeded_def dest!: debit_then_failed)

lemma resolve_observe_failed:
  "resolve_observe rs aid p reg ps t cs aa = (Inr res, p', rs') \<Longrightarrow> \<not> success res \<Longrightarrow> p' = p \<and> rs' = rs"
  unfolding resolve_observe_def Let_def
  by (auto split: if_splits sum.splits option.splits simp: failed_def succeeded_def dest!: debit_then_failed)

lemma resolve_fork_failed:
  "resolve_fork rs aid p reg ps t cs aa = (Inr res, p', rs') \<Longrightarrow> \<not> success res \<Longrightarrow> p' = p \<and> rs' = rs"
  unfolding resolve_fork_def Let_def
  by (auto split: if_splits sum.splits option.splits simp: failed_def succeeded_def dest!: debit_then_failed)

lemma resolve_merge_failed:
  "resolve_merge rs aid p reg ps t cs aa = (Inr res, p', rs') \<Longrightarrow> \<not> success res \<Longrightarrow> p' = p \<and> rs' = rs"
  unfolding resolve_merge_def Let_def
  by (auto split: if_splits sum.splits option.splits simp: failed_def succeeded_def dest!: debit_then_failed)

lemma resolve_attack_failed:
  "resolve_attack rs aid p reg ps t cs aa = (Inr res, p', rs') \<Longrightarrow> \<not> success res \<Longrightarrow> p' = p \<and> rs' = rs"
  unfolding resolve_attack_def Let_def
  by (auto split: if_splits sum.splits option.splits simp: failed_def succeeded_def dest!: debit_then_failed)

lemma resolve_ally_failed:
  "resolve_ally rs aid p reg ps t cs aa = (Inr res, p', rs') \<Longrightarrow> \<not> success res \<Longrightarrow> p' = p \<and> rs' = rs"
  unfolding resolve_ally_def Let_def
  by (auto split: if_splits sum.splits option.splits simp: failed_def succeeded_def dest!: debit_then_failed)

lemma handler_failed:
  "handler_of atype = Some h \<Longrightarrow> h rs aid p reg ps t cs aa = (Inr res, p', rs') \<Longrightarrow> \<not> success res
     \<Longrightarrow> p' = p \<and> rs' = rs"
  unfolding handler_of_def
  by (auto split: if_splits dest: resolve_move_failed resolve_trade_failed resolve_send_message_failed
      resolve_observe_failed resolve_fork_failed resolve_merge_failed resolve_attack_failed resolve_ally_failed)

lemma validate_and_resolve_failed:
  "validate_and_resolve rs atype aid p reg ps t aa = (Inr res, p', rs') \<Longrightarrow> \<not> success res
     \<Longrightarrow> p' = p \<and> rs' = rs"
  unfolding validate_and_resolve_def Let_def
  by (auto split: option.splits if_splits dest: handler_failed)

text \<open>
  Claim C5. Whatever the action type and the input, a failed ActionResult returned by
  \<open>validate_and_resolve\<close> leaves the acting agent's pool as it was. \<open>deduct\<close> is all or
  nothing: with a cost the pool cannot afford it returns False and changes nothing; when it
  returns True every row of the cost table has been subtracted and the caps are untouched;
  and a table of positive costs the pool can afford (every table the engine passes is one)
  is always subtracted in full.
\<close>

theorem failed_action_debits_nothing:
  "(validate_and_resolve rs atype aid p reg ps t aa = (Inr res, p', rs') \<longrightarrow> \<not> success res \<longrightarrow> p' = p)
   \<and> (\<not> can_afford p cs \<longrightarrow> deduct p cs = (Inr False, p))
   \<and> (deduct p cs = (Inr True, q) \<longrightarrow>
        caps q = caps p \<and> (\<forall>r. holdings q r = map_option (\<lambda>v. v - total_cost cs r) (holdings p r)))
   \<and> (can_afford p cs \<longrightarrow> (\<forall>c \<in> set cs. 0 < snd c) \<longrightarrow> (\<exists>q'. deduct p cs = (Inr True, q')))"
proof (intro conjI impI)
  assume "validate_and_resolve rs atype aid p reg ps t aa = (Inr res, p', rs')" "\<not> success res"
  then show "p' = p" using validate_and_resolve_failed by blast
next
  assume "\<not> can_afford p cs"
  then show "deduct p cs = (Inr False, p)" by (simp add: deduct_def)
next
  assume "deduct p cs = (Inr True, q)"
  then have "deduct_loop p cs = (Inr True, q)" by (simp add: deduct_def split: if_splits)
  then show "caps q = caps p" "\<forall>r. holdings q r = map_option (\<lambda>v. v - total_cost cs r) (holdings p r)"
    using deduct_loop_True by blast+
next
  assume "can_afford p cs" "\<forall>c \<in> set cs. 0 < snd c"
  then show "\<exists>q'. deduct p cs = (Inr True, q')"
    using can_afford_positive_present deduct_loop_present by (simp add: deduct_def)
qed

theorem failed_action_debits_nothing_witness:
  "validate_and_resolve ex_regions ''trade'' ''a'' (ex_pool 50 1 100 40) ''nexus''
        [''target_agent'' \<mapsto> JStr ''b'', ''offer_resource'' \<mapsto> JStr ''energy'',
         ''request_resource'' \<mapsto> JStr ''compute''] 7 ex_summary
      = (Inr (failed ''trade'' ''a'' 7 ''Insufficient resources for trade action''),
         ex_pool 50 1 100 40, ex_regions)
   \<and> \<not> success (failed ''trade'' ''a'' 7 ''Insufficient resources for trade action'')
   \<and> \<not> can_afford (ex_pool 50 1 100 40) [(ENERGY, 2), (BANDWIDTH, 3)]
   \<and> deduct (ex_pool 50 1 100 40) [(ENERGY, 2), (BANDWIDTH, 3)] = (Inr False, ex_pool 50 1 100 40)
   \<and> can_afford (ex_pool 50 25 100 40) [(ENERGY, 2), (BANDWIDTH, 3)]
   \<and> (\<exists>q. deduct (ex_pool 50 25 100 40) [(ENERGY, 2), (BANDWIDTH, 3)] = (Inr True, q)
          \<and> holdings q ENERGY = Some 48 \<and> holdings q BANDWIDTH = Some 22
          \<and> holdings q MEMORY = Some 100 \<and> holdings q COMPUTE = Some 40)"
proof -
  let ?cs = "[(ENERGY, 2), (BANDWIDTH, 3 :: real)]"
  let ?poor = "ex_pool 50 1 100 40"
  let ?rich = "ex_pool 50 25 100 40"
  let ?ps = "[''target_agent'' \<mapsto> JStr ''b'', ''offer_resource'' \<mapsto> JStr ''energy'',
         ''request_resource'' \<mapsto> JStr ''compute'']"
  let ?res = "failed ''trade'' ''a'' 7 ''Insufficient resources for trade action''"
  have run: "validate_and_resolve ex_regions ''trade'' ''a'' ?poor ''nexus'' ?ps 7 ex_summary
      = (Inr ?res, ?poor, ex_regions)"
    by (simp add: validate_and_resolve_def handler_of_def ACTION_COSTS_def resolve_trade_def pget_def
        truthy_def dict_get_def ex_summary_def debit_then_def deduct_def held_def ex_pool_def)
  have nf: "\<not> success ?res" by (simp add: failed_def)
  have na: "\<not> can_afford ?poor ?cs" by (simp add: held_def ex_pool_def)
  have ca: "can_afford ?rich ?cs" by (simp add: held_def ex_pool_def)
  have pos: "\<forall>c \<in> set ?cs. 0 < snd c" by simp
  note poor = failed_action_debits_nothing [of ex_regions "''trade''" "''a''" ?poor "''nexus''" ?ps 7
      ex_summary ?res ?poor ex_regions ?cs]
  from poor na have d1: "deduct ?poor ?cs = (Inr False, ?poor)" by blast
  from failed_action_debits_nothing [of _ _ _ ?rich _ _ _ _ _ _ _ ?cs] ca pos
  obtain q where q: "deduct ?rich ?cs = (Inr True, q)" by blast
  from failed_action_debits_nothing [of _ _ _ ?rich _ _ _ _ _ _ _ ?cs q] q
  have "\<forall>r. holdings q r = map_option (\<lambda>v. v - total_cost ?cs r) (holdings ?rich r)" by blast
  then have "holdings q ENERGY = Some 48" "holdings q BANDWIDTH = Some 22"
    "holdings q MEMORY = Some 100" "holdings q COMPUTE = Some 40"
    by (simp_all add: total_cost_def ex_pool_def)
  with run nf na d1 ca q show ?thesis by blast
qed

subsection \<open>Agents in the world map\<close>

lemma get_agent_set_agent [simp]:
  "get_agent (set_agent w k a) k' = (if k' = k then Some a else get_agent w k')"
  by (simp add: get_agent_def set_agent_def update_conv')

lemma get_agent_world_remove_agent [simp]: "get_agent (world_remove_agent w k) k' = get_agent w k'"
  by (simp add: world_remove_agent_def get_agent_def split: option.splits)

lemma get_agent_mark_dead:
  "get_agent (mark_dead w k t) k' =
     (if k' = k then map_option (\<lambda>a. a\<lparr>status := ''dead'', died_at_tick := Some t\<rparr>) (get_agent w k)
      else get_agent w k')"
  by (simp add: mark_dead_def split: option.splits)

lemma get_agent_regions_update [simp]: "get_agent (w\<lparr>regions := rs\<rparr>) k = get_agent w k"
  by (simp add: get_agent_def)

lemma held_ex_pool [simp]:
  "held (ex_pool e b m c) ENERGY = e" "held (ex_pool e b m c) BANDWIDTH = b"
  "held (ex_pool e b m c) MEMORY = m" "held (ex_pool e b m c) COMPUTE = c"
  by (simp_all add: held_def ex_pool_def)

lemma held_update [simp]:
  "held (p\<lparr>holdings := (holdings p)(r \<mapsto> v)\<rparr>) r' = (if r' = r then v else held p r')"
  by (simp add: held_def)

subsection \<open>Attack\<close>

lemma duel_agents: "agents duel_world =
   [(''a'', ex_agent ''a'' ''pk_a'' ''wasteland'' (ex_pool 50 25 100 40) ''claimed''),
    (''b'', ex_agent ''b'' ''pk_b'' ''wasteland'' (ex_pool 50 25 100 40) ''claimed'')]"
  by (simp add: duel_world_def world_add_agent_def empty_world_def ex_agent_def Let_def split: option.splits)

lemma duel_summary: "get_all_agents_summary duel_world =
   [''a'' \<mapsto> \<lparr>summary_region = ''wasteland'', summary_status = ''claimed''\<rparr>,
    ''b'' \<mapsto> \<lparr>summary_region = ''wasteland'', summary_status = ''claimed''\<rparr>]"
  by (simp add: get_all_agents_summary_def duel_agents ex_agent_def fun_eq_iff)

lemma attack_run:
  "validate_and_resolve rs ''attack'' ''a'' (ex_pool 50 25 100 40) ''wasteland''
      [''target_agent'' \<mapsto> JStr ''b''] 1 (get_all_agents_summary duel_world)
   = (Inr (succeeded ''attack'' ''a'' [(''target_agent'', JStr ''b''), (''attacker_strength'', JNum 65),
             (''region_danger'', JNum (case rs ''wasteland'' of None \<Rightarrow> 0 | Some r \<Rightarrow> danger_level r))] 1),
      ex_pool 35 25 100 30, rs)"
  by (simp add: validate_and_resolve_def handler_of_def ACTION_COSTS_def resolve_attack_def pget_def
        known_target_def truthy_def dict_get_def duel_summary debit_then_def deduct_def held_def ex_pool_def
        fun_upd_twist)

lemma duel_get:
  "get_agent duel_world ''a'' = Some (ex_agent ''a'' ''pk_a'' ''wasteland'' (ex_pool 50 25 100 40) ''claimed'')"
  "get_agent duel_world ''b'' = Some (ex_agent ''b'' ''pk_b'' ''wasteland'' (ex_pool 50 25 100 40) ''claimed'')"
  by (simp_all add: get_agent_def duel_agents)

lemma debit_then_succeeded:
  assumes "debit_then p cs rs onfail k = (Inr res, p', rs')" and "success res" and "\<not> success onfail"
  shows "\<exists>q. deduct p cs = (Inr True, q) \<and> k q = (Inr res, p', rs')"
  using assms unfolding debit_then_def
  by (auto split: prod.splits sum.splits bool.splits)

lemma deduct_attack_costs:
  assumes "deduct p [(ENERGY, 15), (COMPUTE, 10)] = (Inr True, q)"
  shows "held q ENERGY = held p ENERGY - 15 \<and> held q COMPUTE = held p COMPUTE - 10"
  using assms
  by (auto simp: deduct_def held_def split: if_splits option.splits)

lemma resolve_attack_succeeded:
  assumes "resolve_attack rs aid p reg ps t [(ENERGY, 15), (COMPUTE, 10)] aa = (Inr res, p', rs')"
    and "success res"
  shows "action_type res = ''attack'' \<and> result_tick res = t
     \<and> map_of (details res) ''target_agent'' = Some (pget ps ''target_agent'')
     \<and> map_of (details res) ''attacker_strength'' = Some (JNum (held p' COMPUTE + held p' ENERGY))
     \<and> held p' ENERGY = held p ENERGY - 15 \<and> held p' COMPUTE = held p COMPUTE - 10"
proof -
  from assms obtain tg q where
    d: "deduct p [(ENERGY, 15), (COMPUTE, 10)] = (Inr True, q)" and
    k: "(Inr (succeeded ''attack'' aid
                             [(''target_agent'', pget ps ''target_agent''),
                              (''attacker_strength'', JNum (held q COMPUTE + held q ENERGY)),
                              (''region_danger'', JNum (case rs reg of None \<Rightarrow> 0 | Some r \<Rightarrow> danger_level r))] t),
                      q, rs) = (Inr res, p', rs')"
    unfolding resolve_attack_def Let_def
    by (auto split: sum.splits option.splits if_splits simp: failed_def dest!: debit_then_succeeded)
  from k have "p' = q" and r: "res = succeeded ''attack'' aid
                             [(''target_agent'', pget ps ''target_agent''),
                              (''attacker_strength'', JNum (held q COMPUTE + held q ENERGY)),
                              (''region_danger'', JNum (case rs reg of None \<Rightarrow> 0 | Some r \<Rightarrow> danger_level r))] t"
    by auto
  with deduct_attack_costs[OF d] show ?thesis by (simp add: succeeded_def)
qed

lemma side_effect_attack_found:
  assumes "action_type res = ''attack''"
    and "map_of (details res) ''target_agent'' = Some (JStr tid)"
    and "map_of (details res) ''attacker_strength'' = Some (JNum s)"
    and "get_agent w akey = Some agent" and "get_agent w tid = Some target"
  shows "\<exists>w' target'. apply_side_effects res akey w = (None, w')
           \<and> get_agent w' tid = Some target'
           \<and> holdings (resources target') ENERGY = Some (max 0 (held (resources target) ENERGY - s * (3 / 10)))
           \<and> status target' = (if held (resources target) ENERGY - s * (3 / 10) \<le> 0 then ''dead'' else status target)
           \<and> died_at_tick target' = (if held (resources target) ENERGY - s * (3 / 10) \<le> 0
                                      then Some (result_tick res) else died_at_tick target)
           \<and> (\<forall>k. k \<noteq> tid \<longrightarrow> get_agent w' k = get_agent w k)"
  using assms
  by (auto simp: apply_side_effects_def side_effect_attack_def find_agent_def as_number_def Let_def
        get_agent_mark_dead max_def)

text \<open>
  Claim C1, as amended. An attack that resolves successfully first debits its cost (15 energy,
  10 compute) and only then reads the attacker's strength: the result carries
  \<open>attacker_strength\<close> = compute + energy of the pool after the debit. The side effect takes
  0.3 times that strength from the target's energy, never below 0, and marks the target
  dead at the result's tick exactly when its energy minus the damage is at most 0; no other
  agent changes.
\<close>

theorem attack_damage_after_debit:
  "(validate_and_resolve rs ''attack'' aid p reg ps t aa = (Inr res, p', rs') \<longrightarrow> success res \<longrightarrow>
      action_type res = ''attack'' \<and> result_tick res = t
      \<and> map_of (details res) ''target_agent'' = Some (pget ps ''target_agent'')
      \<and> map_of (details res) ''attacker_strength'' = Some (JNum (held p' COMPUTE + held p' ENERGY))
      \<and> held p' ENERGY = held p ENERGY - 15 \<and> held p' COMPUTE = held p COMPUTE - 10)
   \<and> (action_type res = ''attack'' \<longrightarrow> map_of (details res) ''target_agent'' = Some (JStr tid) \<longrightarrow>
       map_of (details res) ''attacker_strength'' = Some (JNum s) \<longrightarrow>
       get_agent w akey = Some agent \<longrightarrow> get_agent w tid = Some target \<longrightarrow>
       (\<exists>w' target'. apply_side_effects res akey w = (None, w')
           \<and> get_agent w' tid = Some target'
           \<and> holdings (resources target') ENERGY = Some (max 0 (held (resources target) ENERGY - s * (3 / 10)))
           \<and> status target' = (if held (resources target) ENERGY - s * (3 / 10) \<le> 0 then ''dead'' else status target)
           \<and> died_at_tick target' = (if held (resources target) ENERGY - s * (3 / 10) \<le> 0
                                      then Some (result_tick res) else died_at_tick target)
           \<and> (\<forall>k. k \<noteq> tid \<longrightarrow> get_agent w' k = get_agent w k)))"
proof (intro conjI impI)
  assume a: "validate_and_resolve rs ''attack'' aid p reg ps t aa = (Inr res, p', rs')" "success res"
  then have "resolve_attack rs aid p reg ps t [(ENERGY, 15), (COMPUTE, 10)] aa = (Inr res, p', rs')"
    by (simp add: validate_and_resolve_def handler_of_def ACTION_COSTS_def)
  from resolve_attack_succeeded[OF this a(2)]
  show "action_type res = ''attack''" "result_tick res = t"
    "map_of (details res) ''target_agent'' = Some (pget ps ''target_agent'')"
    "map_of (details res) ''attacker_strength'' = Some (JNum (held p' COMPUTE + held p' ENERGY))"
    "held p' ENERGY = held p ENERGY - 15" "held p' COMPUTE = held p COMPUTE - 10"
    by simp_all
next
  assume "action_type res = ''attack''" "map_of (details res) ''target_agent'' = Some (JStr tid)"
    "map_of (details res) ''attacker_strength'' = Some (JNum s)"
    "get_agent w akey = Some agent" "get_agent w tid = Some target"
  from side_effect_attack_found[OF this]
  show "\<exists>w' target'. apply_side_effects res akey w = (None, w')
           \<and> get_agent w' tid = Some target'
           \<and> holdings (resources target') ENERGY = Some (max 0 (held (resources target) ENERGY - s * (3 / 10)))
           \<and> status target' = (if held (resources target) ENERGY - s * (3 / 10) \<le> 0 then ''dead'' else status target)
           \<and> died_at_tick target' = (if held (resources target) ENERGY - s * (3 / 10) \<le> 0
                                      then Some (result_tick res) else died_at_tick target)
           \<and> (\<forall>k. k \<noteq> tid \<longrightarrow> get_agent w' k = get_agent w k)" .
qed

theorem attack_damage_after_debit_witness:
  "validate_and_resolve ex_regions ''attack'' ''a'' (ex_pool 50 25 100 40) ''wasteland''
      [''target_agent'' \<mapsto> JStr ''b''] 1 (get_all_agents_summary duel_world)
     = (Inr attack_result, ex_pool 35 25 100 30, ex_regions)
   \<and> success attack_result
   \<and> map_of (details attack_result) ''attacker_strength'' = Some (JNum (30 + 35))
   \<and> get_agent duel_world ''a'' = Some (ex_agent ''a'' ''pk_a'' ''wasteland'' (ex_pool 50 25 100 40) ''claimed'')
   \<and> get_agent duel_world ''b'' = Some (ex_agent ''b'' ''pk_b'' ''wasteland'' (ex_pool 50 25 100 40) ''claimed'')
   \<and> (\<exists>w' target'. apply_side_effects attack_result ''a'' duel_world = (None, w')
          \<and> get_agent w' ''b'' = Some target'
          \<and> holdings (resources target') ENERGY = Some (61 / 2)
          \<and> status target' = ''claimed'')"
proof -
  let ?a = "ex_agent ''a'' ''pk_a'' ''wasteland'' (ex_pool 50 25 100 40) ''claimed''"
  let ?b = "ex_agent ''b'' ''pk_b'' ''wasteland'' (ex_pool 50 25 100 40) ''claimed''"
  have run: "validate_and_resolve ex_regions ''attack'' ''a'' (ex_pool 50 25 100 40) ''wasteland''
      [''target_agent'' \<mapsto> JStr ''b''] 1 (get_all_agents_summary duel_world)
     = (Inr attack_result, ex_pool 35 25 100 30, ex_regions)"
    by (simp add: attack_run attack_result_def)
  have ok: "success attack_result" and ty: "action_type attack_result = ''attack''"
    and tg: "map_of (details attack_result) ''target_agent'' = Some (JStr ''b'')"
    and st: "map_of (details attack_result) ''attacker_strength'' = Some (JNum 65)"
    by (simp_all add: attack_result_def succeeded_def)
  note inst = attack_damage_after_debit [of ex_regions "''a''" "ex_pool 50 25 100 40" "''wasteland''"
      "[''target_agent'' \<mapsto> JStr ''b'']" 1 "get_all_agents_summary duel_world" attack_result
      "ex_pool 35 25 100 30" ex_regions "''b''" 65 duel_world "''a''" ?a ?b]
  from inst run ok have s: "map_of (details attack_result) ''attacker_strength'' = Some (JNum (30 + 35))"
    by simp
  from inst ty tg st duel_get obtain w' target' where
    "apply_side_effects attack_result ''a'' duel_world = (None, w')" "get_agent w' ''b'' = Some target'"
    "holdings (resources target') ENERGY = Some (max 0 (held (resources ?b) ENERGY - 65 * (3 / 10)))"
    "status target' = (if held (resources ?b) ENERGY - 65 * (3 / 10) \<le> 0 then ''dead'' else status ?b)"
    by blast
  then have "\<exists>w' target'. apply_side_effects attack_result ''a'' duel_world = (None, w')
          \<and> get_agent w' ''b'' = Some target'
          \<and> holdings (resources target') ENERGY = Some (61 / 2)
          \<and> status target' = ''claimed''"
    by (simp add: ex_agent_def)
  with run ok s duel_get show ?thesis by blast
qed

text \<open>
  The claim as it was stated fails: an attacker that enters the resolution with energy 50
  and compute 40 is left with 35 and 30, so it deals 0.3 * 65 = 19.5 damage, not 27, and a
  target with energy 50 ends at 30.5.
\<close>

theorem attack_damage_counterexample:
  "(case resolve_queued 1 (get_all_agents_summary duel_world) attack_b (duel_world, []) of
      (err, w', results) \<Rightarrow>
        err = None \<and> map success results = [True]
        \<and> map_option (\<lambda>a. (held (resources a) ENERGY, held (resources a) COMPUTE)) (get_agent w' ''a'') = Some (35, 30)
        \<and> map_option (\<lambda>a. held (resources a) ENERGY) (get_agent w' ''b'') = Some (61 / 2))
   \<and> (61 / 2 :: real) \<noteq> 50 - 3 / 10 * (40 + 50)"
  by (simp add: resolve_queued_def attack_b_def duel_get is_alive_def attack_run
        apply_side_effects_def side_effect_attack_def find_agent_def as_number_def
        succeeded_def Let_def ex_agent_def get_agent_mark_dead)

subsection \<open>Trade resolution\<close>

lemma deduct_trade_costs:
  "deduct p [(ENERGY, 2), (BANDWIDTH, 3)] =
     (if can_afford p [(ENERGY, 2), (BANDWIDTH, 3)]
      then (Inr True, p\<lparr>holdings := (holdings p)(ENERGY \<mapsto> held p ENERGY - 2,
                                                   BANDWIDTH \<mapsto> held p BANDWIDTH - 3)\<rparr>)
      else (Inr False, p))"
  by (auto simp: deduct_def held_def split: option.splits)

lemma resolve_trade_cases:
  "resolve_trade rs aid p reg ps t [(ENERGY, 2), (BANDWIDTH, 3)] aa =
     (if \<not> (truthy (pget ps ''target_agent'') \<and> truthy (pget ps ''offer_resource'')
             \<and> truthy (pget ps ''request_resource''))
      then (Inr (failed ''trade'' aid t ''Missing trade parameters''), p, rs)
      else case dict_get aa (pget ps ''target_agent'') of
             Inl e \<Rightarrow> (Inl e, p, rs)
           | Inr None \<Rightarrow> (Inr (failed ''trade'' aid t ''Target agent not found''), p, rs)
           | Inr (Some _) \<Rightarrow>
               if can_afford p [(ENERGY, 2), (BANDWIDTH, 3)]
               then (Inr (succeeded ''trade'' aid
                              [(''target_agent'', pget ps ''target_agent''),
                               (''offer_resource'', pget ps ''offer_resource''),
                               (''offer_amount'', case ps ''offer_amount'' of None \<Rightarrow> JNum 0 | Some v \<Rightarrow> v),
                               (''request_resource'', pget ps ''request_resource''),
                               (''request_amount'', case ps ''request_amount'' of None \<Rightarrow> JNum 0 | Some v \<Rightarrow> v),
                               (''status'', JStr ''pending'')] t),
                     p\<lparr>holdings := (holdings p)(ENERGY \<mapsto> held p ENERGY - 2,
                                                   BANDWIDTH \<mapsto> held p BANDWIDTH - 3)\<rparr>, rs)
               else (Inr (failed ''trade'' aid t ''Insufficient resources for trade action''), p, rs))"
  unfolding resolve_trade_def Let_def debit_then_def deduct_trade_costs
  by (simp split: sum.splits option.splits)

lemma dict_get_Some_iff:
  "(\<exists>v. dict_get d k = Inr (Some v)) \<longleftrightarrow> (\<exists>s. k = JStr s \<and> s \<in> dom d)"
  by (cases k) (auto simp: dict_get_def)

lemma dict_get_Inl: "dict_get d k = Inl e \<Longrightarrow> e = TypeError"
  by (cases k) (auto simp: dict_get_def)

text \<open>
  Claim C6, as amended. Resolving a trade action succeeds exactly when \<open>target_agent\<close>,
  \<open>offer_resource\<close> and \<open>request_resource\<close> are present and truthy, the target is a key
  of the agent summary (a dead agent is one), and the sender can afford the action cost of
  2 energy and 3 bandwidth. Whether the target is alive, whether the two resource strings
  name a resource kind and the sign of the amounts are not looked at. A success debits
  exactly the action cost; every other outcome leaves the sender's pool as it was.
\<close>

theorem trade_resolution:
  "validate_and_resolve rs ''trade'' aid p reg ps t aa = (out, p', rs') \<longrightarrow>
     (case out of
        Inl e \<Rightarrow> e = TypeError \<and> p' = p
      | Inr res \<Rightarrow>
          (success res \<longleftrightarrow>
             truthy (pget ps ''target_agent'') \<and> truthy (pget ps ''offer_resource'')
             \<and> truthy (pget ps ''request_resource'')
             \<and> (\<exists>tid. pget ps ''target_agent'' = JStr tid \<and> tid \<in> dom aa)
             \<and> can_afford p [(ENERGY, 2), (BANDWIDTH, 3)])
          \<and> (\<not> success res \<longrightarrow> p' = p)
          \<and> (success res \<longrightarrow>
                held p' ENERGY = held p ENERGY - 2 \<and> held p' BANDWIDTH = held p BANDWIDTH - 3
                \<and> held p' MEMORY = held p MEMORY \<and> held p' COMPUTE = held p COMPUTE))"
proof
  assume "validate_and_resolve rs ''trade'' aid p reg ps t aa = (out, p', rs')"
  then have run: "resolve_trade rs aid p reg ps t [(ENERGY, 2), (BANDWIDTH, 3)] aa = (out, p', rs')"
    by (simp add: validate_and_resolve_def handler_of_def ACTION_COSTS_def)
  let ?present = "truthy (pget ps ''target_agent'') \<and> truthy (pget ps ''offer_resource'')
             \<and> truthy (pget ps ''request_resource'')"
  show "case out of
        Inl e \<Rightarrow> e = TypeError \<and> p' = p
      | Inr res \<Rightarrow>
          (success res \<longleftrightarrow>
             truthy (pget ps ''target_agent'') \<and> truthy (pget ps ''offer_resource'')
             \<and> truthy (pget ps ''request_resource'')
             \<and> (\<exists>tid. pget ps ''target_agent'' = JStr tid \<and> tid \<in> dom aa)
             \<and> can_afford p [(ENERGY, 2), (BANDWIDTH, 3)])
          \<and> (\<not> success res \<longrightarrow> p' = p)
          \<and> (success res \<longrightarrow>
                held p' ENERGY = held p ENERGY - 2 \<and> held p' BANDWIDTH = held p BANDWIDTH - 3
                \<and> held p' MEMORY = held p MEMORY \<and> held p' COMPUTE = held p COMPUTE)"
  proof (cases ?present)
    case False
    with run show ?thesis by (auto simp: resolve_trade_cases failed_def)
  next
    case True
    show ?thesis
    proof (cases "dict_get aa (pget ps ''target_agent'')")
      case (Inl e)
      with run True dict_get_Inl[OF Inl] show ?thesis by (auto simp: resolve_trade_cases)
    next
      case (Inr found)
      show ?thesis
      proof (cases found)
        case None
        with Inr dict_get_Some_iff[of aa "pget ps ''target_agent''"]
        have "\<not> (\<exists>tid. pget ps ''target_agent'' = JStr tid \<and> tid \<in> dom aa)" by simp
        with run True Inr None show ?thesis by (auto simp: resolve_trade_cases failed_def)
      next
        case (Some sm)
        with Inr dict_get_Some_iff[of aa "pget ps ''target_agent''"]
        have known: "\<exists>tid. pget ps ''target_agent'' = JStr tid \<and> tid \<in> dom aa" by simp
        show ?thesis
        proof (cases "can_afford p [(ENERGY, 2), (BANDWIDTH, 3)]")
          case False
          with run True Inr Some show ?thesis
            by (auto simp: resolve_trade_cases failed_def simp del: can_afford.simps)
        next
          case afford: True
          with run True Inr Some
          have "out = Inr (succeeded ''trade'' aid
                              [(''target_agent'', pget ps ''target_agent''),
                               (''offer_resource'', pget ps ''offer_resource''),
                               (''offer_amount'', case ps ''offer_amount'' of None \<Rightarrow> JNum 0 | Some v \<Rightarrow> v),
                               (''request_resource'', pget ps ''request_resource''),
                               (''request_amount'', case ps ''request_amount'' of None \<Rightarrow> JNum 0 | Some v \<Rightarrow> v),
                               (''status'', JStr ''pending'')] t)"
            and "p' = p\<lparr>holdings := (holdings p)(ENERGY \<mapsto> held p ENERGY - 2,
                                                   BANDWIDTH \<mapsto> held p BANDWIDTH - 3)\<rparr>"
            by (simp_all add: resolve_trade_cases del: can_afford.simps)
          with True known afford show ?thesis
            by (simp add: succeeded_def held_def del: can_afford.simps)
        qed
      qed
    qed
  qed
qed

theorem trade_resolution_witness:
  "(\<exists>res p'. validate_and_resolve ex_regions ''trade'' ''a'' (ex_pool 50 25 100 40) ''nexus''
        good_trade_params 1 ex_summary = (Inr res, p', ex_regions)
      \<and> success res \<and> held p' ENERGY = 48 \<and> held p' BANDWIDTH = 22
      \<and> held p' MEMORY = 100 \<and> held p' COMPUTE = 40)
   \<and> (\<exists>res. validate_and_resolve ex_regions ''trade'' ''a'' (ex_pool 50 1 100 40) ''nexus''
        good_trade_params 1 ex_summary = (Inr res, ex_pool 50 1 100 40, ex_regions)
      \<and> \<not> success res)"
proof -
  let ?cs = "[(ENERGY, 2), (BANDWIDTH, 3 :: real)]"
  have t: "truthy (pget good_trade_params ''target_agent'')"
    "truthy (pget good_trade_params ''offer_resource'')"
    "truthy (pget good_trade_params ''request_resource'')"
    "pget good_trade_params ''target_agent'' = JStr ''b''" "''b'' \<in> dom ex_summary"
    by (simp_all add: good_trade_params_def pget_def truthy_def ex_summary_def)
  have ca: "can_afford (ex_pool 50 25 100 40) ?cs" and na: "\<not> can_afford (ex_pool 50 1 100 40) ?cs"
    by simp_all
  have "\<exists>res p'. validate_and_resolve ex_regions ''trade'' ''a'' (ex_pool 50 25 100 40)
        ''nexus'' good_trade_params 1 ex_summary = (Inr res, p', ex_regions)"
    by (simp add: validate_and_resolve_def handler_of_def ACTION_COSTS_def resolve_trade_cases
          good_trade_params_def pget_def truthy_def dict_get_def ex_summary_def)
  then obtain res p' where run: "validate_and_resolve ex_regions ''trade'' ''a'' (ex_pool 50 25 100 40)
        ''nexus'' good_trade_params 1 ex_summary = (Inr res, p', ex_regions)"
    by blast
  from trade_resolution [of ex_regions "''a''" "ex_pool 50 25 100 40" "''nexus''" good_trade_params 1
      ex_summary "Inr res" p' ex_regions] run t ca
  have "success res \<and> held p' ENERGY = 48 \<and> held p' BANDWIDTH = 22
      \<and> held p' MEMORY = 100 \<and> held p' COMPUTE = 40"
    by (auto simp del: can_afford.simps)
  with run have first: "\<exists>res p'. validate_and_resolve ex_regions ''trade'' ''a''
        (ex_pool 50 25 100 40) ''nexus'' good_trade_params 1 ex_summary = (Inr res, p', ex_regions)
      \<and> success res \<and> held p' ENERGY = 48 \<and> held p' BANDWIDTH = 22
      \<and> held p' MEMORY = 100 \<and> held p' COMPUTE = 40"
    by blast
  have "\<exists>res q. validate_and_resolve ex_regions ''trade'' ''a'' (ex_pool 50 1 100 40)
        ''nexus'' good_trade_params 1 ex_summary = (Inr res, q, ex_regions)"
    by (simp add: validate_and_resolve_def handler_of_def ACTION_COSTS_def resolve_trade_cases
          good_trade_params_def pget_def truthy_def dict_get_def ex_summary_def)
  then obtain res2 q where run2: "validate_and_resolve ex_regions ''trade'' ''a'' (ex_pool 50 1 100 40)
        ''nexus'' good_trade_params 1 ex_summary = (Inr res2, q, ex_regions)"
    by blast
  from trade_resolution [of ex_regions "''a''" "ex_pool 50 1 100 40" "''nexus''" good_trade_params 1
      ex_summary "Inr res2" q ex_regions] run2 na
  have "\<not> success res2 \<and> q = ex_pool 50 1 100 40"
    by (auto simp del: can_afford.simps)
  with run2 have "\<exists>res. validate_and_resolve ex_regions ''trade'' ''a'' (ex_pool 50 1 100 40)
        ''nexus'' good_trade_params 1 ex_summary = (Inr res, ex_pool 50 1 100 40, ex_regions)
      \<and> \<not> success res"
    by blast
  with first show ?thesis by blast
qed

text \<open>
  The claim as it was stated fails: an offer of -5 ``gold'' for -1 ``favours'' to a dead
  agent resolves successfully and is debited.
\<close>

theorem trade_resolution_counterexample:
  "(\<exists>res p'. validate_and_resolve ex_regions ''trade'' ''a'' (ex_pool 50 25 100 40) ''nexus''
        bad_trade_params 1 dead_summary = (Inr res, p', ex_regions)
      \<and> success res \<and> held p' ENERGY = 48 \<and> held p' BANDWIDTH = 22)
   \<and> map_option summary_status (dead_summary ''b'') = Some ''dead''
   \<and> map_option ResourceType_of (map_option (\<lambda>v. case v of JStr s \<Rightarrow> s | _ \<Rightarrow> [])
        (bad_trade_params ''offer_resource'')) = Some None
   \<and> map_option ResourceType_of (map_option (\<lambda>v. case v of JStr s \<Rightarrow> s | _ \<Rightarrow> [])
        (bad_trade_params ''request_resource'')) = Some None
   \<and> bad_trade_params ''offer_amount'' = Some (JNum (- 5))
   \<and> bad_trade_params ''request_amount'' = Some (JNum (- 1))"
  by (simp add: validate_and_resolve_def handler_of_def ACTION_COSTS_def resolve_trade_cases
        bad_trade_params_def dead_summary_def pget_def truthy_def dict_get_def succeeded_def
        ResourceType_of_def held_def ex_pool_def)

subsection \<open>Regeneration and danger\<close>



lemma region_add_agent_fields [simp]:
  "resource_multiplier (region_add_agent r a) = resource_multiplier r"
  "danger_level (region_add_agent r a) = danger_level r"
  "capacity (region_add_agent r a) = capacity r"
  by (simp_all add: region_add_agent_def)

lemma region_remove_agent_fields [simp]:
  "resource_multiplier (region_remove_agent r a) = resource_multiplier r"
  "danger_level (region_remove_agent r a) = danger_level r"
  "capacity (region_remove_agent r a) = capacity r"
  by (simp_all add: region_remove_agent_def)

lemma ex_agent_fields [simp]:
  "agent_id (ex_agent a pk r p s) = a" "public_key (ex_agent a pk r p s) = pk"
  "region (ex_agent a pk r p s) = r" "resources (ex_agent a pk r p s) = p"
  "status (ex_agent a pk r p s) = s" "claim_token (ex_agent a pk r p s) = None"
  "owner_identity (ex_agent a pk r p s) = None" "died_at_tick (ex_agent a pk r p s) = None"
  by (simp_all add: ex_agent_def)

lemma caps_ex_pool [simp]: "caps (ex_pool e b m c) r = Some (default_cap r)"
  by (simp add: ex_pool_def)



subsection \<open>Fork\<close>

lemma get_agent_world_add_agent [simp]:
  "get_agent (world_add_agent w a) k = (if k = agent_id a then Some a else get_agent w k)"
  by (simp add: world_add_agent_def get_agent_def Let_def update_conv' split: option.splits)





lemma holdings_ex_pool [simp]:
  "holdings (ex_pool e b m c) ENERGY = Some e" "holdings (ex_pool e b m c) BANDWIDTH = Some b"
  "holdings (ex_pool e b m c) MEMORY = Some m" "holdings (ex_pool e b m c) COMPUTE = Some c"
  by (simp_all add: ex_pool_def)



subsection \<open>Agent ids and public keys\<close>







lemma ids_match_alliance [simp]: "ids_match (w\<lparr>alliance_proposals := ps\<rparr>) = ids_match w"
  by (simp add: ids_match_def get_agent_def)









lemma empty_world_fields [simp]:
  "agents empty_world = []" "regions empty_world = ex_regions" "tick empty_world = 0"
  by (simp_all add: empty_world_def)

lemma ex_regions_nexus: "ex_regions ''nexus'' = Some (mk_region ''nexus'' ''The Nexus''
        ''Central hub. Low danger, moderate resources. Spawn point.'' 0 0 1 (5 / 100) 200)"
  by (simp add: ex_regions_def initialize_defaults_def DEFAULT_REGIONS_def mk_region_def)

lemma reg_world_agents: "agents reg_world = [(''agent_pk_a'', alice)]"
  by (simp add: reg_world_def register_agent_def test_identity_def get_agent_def ex_regions_nexus
        world_add_agent_def Let_def alice_def mk_region_def)


lemma claimed_world_agents:
  "agents claimed_world =
     [(''agent_pk_a'', alice\<lparr>status := ''claimed'', owner_identity := Some ''@alice'',
                                claim_token := None, claim_token_expires := None\<rparr>)]"
  by (simp add: claimed_world_def claim_agent_def validate_claim_token_def MAX_CLAIM_ATTEMPTS_def
        get_agent_by_claim_token_def reg_world_agents alice_def set_agent_def Let_def)







subsection \<open>Accepting a trade offer\<close>

lemma accept_offer_refused:
  assumes "\<not> offer_acceptable tm w oid acc t"
  shows "\<exists>msg tm'. accept_offer tm w now oid acc t = (Inr (trade_refused msg), tm', w)"
proof (cases "map_of (offers tm) oid")
  case None
  then show ?thesis by (auto simp: accept_offer_def)
next
  case (Some offer)
  note offer = this
  show ?thesis
  proof (cases "offer_status offer = ''pending'' \<and> to_agent offer = acc \<and> t \<le> expires_at_tick offer")
    case False
    with offer show ?thesis by (auto simp: accept_offer_def)
  next
    case True
    note pre = this
    show ?thesis
    proof (cases "get_agent w (from_agent offer)")
      case None
      with offer pre show ?thesis by (auto simp: accept_offer_def)
    next
      case (Some fa)
      note fa = this
      show ?thesis
      proof (cases "is_alive fa")
        case False
        with offer pre fa show ?thesis by (auto simp: accept_offer_def)
      next
        case True
        note fal = this
        show ?thesis
        proof (cases "get_agent w (to_agent offer)")
          case None
          with offer pre fa fal show ?thesis by (auto simp: accept_offer_def)
        next
          case (Some ta)
          note ta = this
          show ?thesis
          proof (cases "is_alive ta")
            case False
            with offer pre fa fal ta show ?thesis by (auto simp: accept_offer_def)
          next
            case True
            note tal = this
            show ?thesis
            proof (cases "ResourceType_of (offer_resource offer)")
              case None
              with offer pre fa fal ta tal show ?thesis by (auto simp: accept_offer_def)
            next
              case (Some orr)
              note orr = this
              show ?thesis
              proof (cases "ResourceType_of (request_resource offer)")
                case None
                with offer pre fa fal ta tal orr show ?thesis by (auto simp: accept_offer_def)
              next
                case (Some rr)
                with assms offer pre fa fal ta tal orr
                have "held (resources fa) orr < offer_amount offer
                      \<or> held (resources ta) rr < request_amount offer"
                  by (auto simp: offer_acceptable_def)
                with offer pre fa fal ta tal orr Some show ?thesis
                  by (auto simp: accept_offer_def)
              qed
            qed
          qed
        qed
      qed
    qed
  qed
qed

lemma debit_agent_held_by:
  assumes "debit_agent w k r amt = Inr w'" and "get_agent w k \<noteq> None"
  shows "held_by w' k' r' = held_by w k' r' - (if k' = k \<and> r' = r then amt else 0)"
  using assms
  by (auto simp: debit_agent_def held_by_def held_def split: option.splits if_splits)

lemma debit_agent_present:
  assumes "debit_agent w k r amt = Inr w'"
  shows "(get_agent w' k' = None) = (get_agent w k' = None)"
  using assms by (auto simp: debit_agent_def split: option.splits if_splits)

lemma debit_agent_holds_kind:
  assumes "debit_agent w k r amt = Inr w'" and "holds_kind w k' r'"
  shows "holds_kind w' k' r'"
  using assms by (auto simp: debit_agent_def holds_kind_def split: option.splits if_splits)

lemma debit_agent_ok:
  assumes "holds_kind w k r"
  shows "\<exists>w'. debit_agent w k r amt = Inr w'"
  using assms by (auto simp: debit_agent_def holds_kind_def)

lemma credit_agent_held_by:
  assumes "get_agent w k \<noteq> None"
  shows "held_by (credit_agent w k r amt) k' r' = held_by w k' r' + (if k' = k \<and> r' = r then amt else 0)"
  using assms
  by (auto simp: credit_agent_def held_by_def held_def split: option.splits if_splits)

lemma credit_agent_present:
  "(get_agent (credit_agent w k r amt) k' = None) = (get_agent w k' = None)"
  by (auto simp: credit_agent_def split: option.splits if_splits)

lemma credit_agent_holds_kind:
  assumes "holds_kind w k' r'"
  shows "holds_kind (credit_agent w k r amt) k' r'"
  using assms by (auto simp: credit_agent_def holds_kind_def split: option.splits if_splits)

lemma accept_offer_execute:
  assumes "offer_acceptable tm w oid acc t" and "map_of (offers tm) oid = Some offer"
    and "ResourceType_of (offer_resource offer) = Some orr"
    and "ResourceType_of (request_resource offer) = Some rr"
  shows "accept_offer tm w now oid acc t =
     (case debit_agent w (from_agent offer) orr (offer_amount offer) of
        Inl e \<Rightarrow> (Inl e, tm, w)
      | Inr w1 \<Rightarrow>
          (let w2 = credit_agent w1 (to_agent offer) orr (offer_amount offer)
           in case debit_agent w2 (to_agent offer) rr (request_amount offer) of
                Inl e \<Rightarrow> (Inl e, tm, w2)
              | Inr w3 \<Rightarrow>
                  (let w4 = credit_agent w3 (from_agent offer) rr (request_amount offer);
                       tm1 = set_offer_status tm oid offer ''executed'';
                       meta = [(''trade_id'', JStr (offer_id offer))];
                       acc1 = record_transfer (accounting tm1) now t
                                (from_agent offer) (to_agent offer)
                                (offer_resource offer) (offer_amount offer) meta;
                       acc2 = record_transfer acc1 now t
                                (to_agent offer) (from_agent offer)
                                (request_resource offer) (request_amount offer) meta
                   in (Inr [(''success'', JBool True),
                            (''offer_id'', JStr (offer_id offer)),
                            (''executed_at_tick'', JNum (of_int t))],
                       tm1\<lparr>accounting := acc2\<rparr>, w4))))"
proof -
  from assms obtain fa ta where
    a: "get_agent w (from_agent offer) = Some fa" "get_agent w (to_agent offer) = Some ta"
       "is_alive fa" "is_alive ta" "offer_status offer = ''pending''" "to_agent offer = acc"
       "t \<le> expires_at_tick offer"
       "offer_amount offer \<le> held (resources fa) orr"
       "request_amount offer \<le> held (resources ta) rr"
    by (auto simp: offer_acceptable_def split: option.splits)
  with assms(2-4) show ?thesis
    by (simp add: accept_offer_def)
qed

lemma accept_offer_ledger:
  assumes acc: "offer_acceptable tm w oid acc t"
    and run: "accept_offer tm w now oid acc t = (Inr resp, tm', w')"
  shows "\<exists>offer orr rr. map_of (offers tm) oid = Some offer
          \<and> ResourceType_of (offer_resource offer) = Some orr
          \<and> ResourceType_of (request_resource offer) = Some rr
          \<and> map_of resp ''success'' = Some (JBool True)
          \<and> (\<forall>k r. held_by w' k r =
                held_by w k r
                - (if k = from_agent offer \<and> r = orr then offer_amount offer else 0)
                + (if k = to_agent offer \<and> r = orr then offer_amount offer else 0)
                - (if k = to_agent offer \<and> r = rr then request_amount offer else 0)
                + (if k = from_agent offer \<and> r = rr then request_amount offer else 0))"
proof -
  from acc obtain offer orr rr fa ta where
    o: "map_of (offers tm) oid = Some offer"
      "ResourceType_of (offer_resource offer) = Some orr"
      "ResourceType_of (request_resource offer) = Some rr"
    and p: "get_agent w (from_agent offer) = Some fa" "get_agent w (to_agent offer) = Some ta"
    by (auto simp: offer_acceptable_def split: option.splits)
  note ex = accept_offer_execute[OF acc o, of now]
  from run ex obtain w1 where w1: "debit_agent w (from_agent offer) orr (offer_amount offer) = Inr w1"
    by (cases "debit_agent w (from_agent offer) orr (offer_amount offer)") auto
  let ?w2 = "credit_agent w1 (to_agent offer) orr (offer_amount offer)"
  from run ex w1 obtain w3 where w3: "debit_agent ?w2 (to_agent offer) rr (request_amount offer) = Inr w3"
    by (cases "debit_agent ?w2 (to_agent offer) rr (request_amount offer)") (auto simp: Let_def)
  from run ex w1 w3 have w': "w' = credit_agent w3 (from_agent offer) rr (request_amount offer)"
    and resp: "resp = [(''success'', JBool True), (''offer_id'', JStr (offer_id offer)),
                       (''executed_at_tick'', JNum (of_int t))]"
    by (simp_all add: Let_def)
  have p1: "get_agent w1 (to_agent offer) \<noteq> None" "get_agent w1 (from_agent offer) \<noteq> None"
    using debit_agent_present[OF w1] p by simp_all
  have p2: "get_agent ?w2 (to_agent offer) \<noteq> None" "get_agent ?w2 (from_agent offer) \<noteq> None"
    using p1 by (simp_all add: credit_agent_present)
  have p3: "get_agent w3 (from_agent offer) \<noteq> None"
    using debit_agent_present[OF w3] p2 by simp
  have "\<forall>k r. held_by w' k r =
                held_by w k r
                - (if k = from_agent offer \<and> r = orr then offer_amount offer else 0)
                + (if k = to_agent offer \<and> r = orr then offer_amount offer else 0)
                - (if k = to_agent offer \<and> r = rr then request_amount offer else 0)
                + (if k = from_agent offer \<and> r = rr then request_amount offer else 0)"
    unfolding w'
    by (simp only: credit_agent_held_by[OF p3] debit_agent_held_by[OF w3 p2(1)]
          credit_agent_held_by[OF p1(1)] debit_agent_held_by[OF w1] p(1) option.distinct
          not_False_eq_True simp_thms)
  with o resp show ?thesis by auto
qed

lemma accept_offer_returns:
  assumes acc: "offer_acceptable tm w oid acc t" and o: "map_of (offers tm) oid = Some offer"
    and pos: "0 < offer_amount offer" "0 < request_amount offer"
  shows "\<exists>resp tm' w'. accept_offer tm w now oid acc t = (Inr resp, tm', w')"
proof -
  from acc o obtain orr rr fa ta where
    r: "ResourceType_of (offer_resource offer) = Some orr"
      "ResourceType_of (request_resource offer) = Some rr"
    and p: "get_agent w (from_agent offer) = Some fa" "get_agent w (to_agent offer) = Some ta"
      "offer_amount offer \<le> held (resources fa) orr"
      "request_amount offer \<le> held (resources ta) rr"
    by (auto simp: offer_acceptable_def split: option.splits)
  from p pos have hk: "holds_kind w (from_agent offer) orr" "holds_kind w (to_agent offer) rr"
    by (auto simp: holds_kind_def held_def split: option.splits)
  from debit_agent_ok[OF hk(1)] obtain w1 where
    w1: "debit_agent w (from_agent offer) orr (offer_amount offer) = Inr w1" by blast
  let ?w2 = "credit_agent w1 (to_agent offer) orr (offer_amount offer)"
  have "holds_kind ?w2 (to_agent offer) rr"
    using debit_agent_holds_kind[OF w1 hk(2)] by (rule credit_agent_holds_kind)
  from debit_agent_ok[OF this] obtain w3 where
    w3: "debit_agent ?w2 (to_agent offer) rr (request_amount offer) = Inr w3" by blast
  show ?thesis
    unfolding accept_offer_execute[OF acc o r] by (simp add: w1 w3 Let_def)
qed

lemma pad8_0: "pad8 0 = ''00000000''"
  by code_simp

lemma energy_for_compute_offers: "offers energy_for_compute = [(''trade_00000000'', the_offer)]"
  by (simp add: energy_for_compute_def create_offer_def no_offers_def the_offer_def pad8_0
        OFFER_WINDOW_TICKS_def Let_def)

lemma the_offer_lookup: "map_of (offers energy_for_compute) ''trade_00000000'' = Some the_offer"
  by (simp add: energy_for_compute_offers)

lemma the_offer_fields [simp]:
  "from_agent the_offer = ''a''" "to_agent the_offer = ''b''" "offer_status the_offer = ''pending''"
  "offer_resource the_offer = ''energy''" "request_resource the_offer = ''compute''"
  "offer_amount the_offer = 10" "request_amount the_offer = 5" "expires_at_tick the_offer = 11"
  by (simp_all add: the_offer_def)

lemma duel_acceptable: "offer_acceptable energy_for_compute duel_world ''trade_00000000'' ''b'' 4"
  by (simp add: offer_acceptable_def the_offer_lookup duel_get ResourceType_of_def is_alive_def)

lemma duel_expired: "\<not> offer_acceptable energy_for_compute duel_world ''trade_00000000'' ''b'' 12"
  by (simp add: offer_acceptable_def the_offer_lookup)

lemma duel_held_by:
  "held_by duel_world ''a'' ENERGY = 50" "held_by duel_world ''b'' ENERGY = 50"
  "held_by duel_world ''a'' COMPUTE = 40" "held_by duel_world ''b'' COMPUTE = 40"
  by (simp_all add: held_by_def duel_get)

lemma near_cap_get:
  "get_agent near_cap_world ''a'' = Some (ex_agent ''a'' ''pk_a'' ''nexus'' (ex_pool 50 25 100 40) ''claimed'')"
  "get_agent near_cap_world ''b'' = Some (ex_agent ''b'' ''pk_b'' ''nexus'' (ex_pool 95 25 100 40) ''claimed'')"
  by (simp_all add: near_cap_world_def)

lemma near_cap_acceptable:
  "offer_acceptable energy_for_compute near_cap_world ''trade_00000000'' ''b'' 4"
  by (simp add: offer_acceptable_def the_offer_lookup near_cap_get ResourceType_of_def is_alive_def)

text \<open>
  Claim C4. \<open>accept_offer\<close> is atomic and conserving. When any check of acceptance fails
  it returns a refusal (success False) and the world, so every agent's holdings, is unchanged.
  When all checks pass and it returns, it reports success and each agent's holding of each
  kind has changed by exactly the four transfers: the offerer gives \<open>offer_amount\<close> of the
  offer resource to the accepter, the accepter gives \<open>request_amount\<close> of the request
  resource to the offerer; so the two parties' joint holding of every kind is the same as
  before. With positive amounts an acceptable offer always returns. An offer created at tick
  t is pending and expires at t + 10.
\<close>

theorem accept_offer_atomic_and_conserving:
  "(\<not> offer_acceptable tm w oid acc t \<longrightarrow>
      (\<exists>msg tm'. accept_offer tm w now oid acc t = (Inr (trade_refused msg), tm', w)))
   \<and> (offer_acceptable tm w oid acc t \<longrightarrow>
       accept_offer tm w now oid acc t = (Inr resp, tm', w') \<longrightarrow>
        (\<exists>offer orr rr. map_of (offers tm) oid = Some offer
          \<and> ResourceType_of (offer_resource offer) = Some orr
          \<and> ResourceType_of (request_resource offer) = Some rr
          \<and> map_of resp ''success'' = Some (JBool True)
          \<and> (\<forall>k r. held_by w' k r =
                held_by w k r
                - (if k = from_agent offer \<and> r = orr then offer_amount offer else 0)
                + (if k = to_agent offer \<and> r = orr then offer_amount offer else 0)
                - (if k = to_agent offer \<and> r = rr then request_amount offer else 0)
                + (if k = from_agent offer \<and> r = rr then request_amount offer else 0))
          \<and> (\<forall>r. held_by w' (from_agent offer) r + held_by w' (to_agent offer) r
                   = held_by w (from_agent offer) r + held_by w (to_agent offer) r)))
   \<and> (offer_acceptable tm w oid acc t \<longrightarrow> map_of (offers tm) oid = Some offer' \<longrightarrow>
       0 < offer_amount offer' \<longrightarrow> 0 < request_amount offer' \<longrightarrow>
        (\<exists>resp tm' w'. accept_offer tm w now oid acc t = (Inr resp, tm', w')))
   \<and> expires_at_tick (fst (create_offer tm now t from_id to_id ores oamt rres ramt)) = t + 10
   \<and> offer_status (fst (create_offer tm now t from_id to_id ores oamt rres ramt)) = ''pending''"
proof (intro conjI impI)
  assume "\<not> offer_acceptable tm w oid acc t"
  then show "\<exists>msg tm'. accept_offer tm w now oid acc t = (Inr (trade_refused msg), tm', w)"
    by (rule accept_offer_refused)
next
  assume "offer_acceptable tm w oid acc t" "accept_offer tm w now oid acc t = (Inr resp, tm', w')"
  from accept_offer_ledger[OF this] obtain offer orr rr where
    l: "map_of (offers tm) oid = Some offer"
      "ResourceType_of (offer_resource offer) = Some orr"
      "ResourceType_of (request_resource offer) = Some rr"
      "map_of resp ''success'' = Some (JBool True)"
      "\<forall>k r. held_by w' k r =
                held_by w k r
                - (if k = from_agent offer \<and> r = orr then offer_amount offer else 0)
                + (if k = to_agent offer \<and> r = orr then offer_amount offer else 0)
                - (if k = to_agent offer \<and> r = rr then request_amount offer else 0)
                + (if k = from_agent offer \<and> r = rr then request_amount offer else 0)"
    by blast
  from l(5) have "\<forall>r. held_by w' (from_agent offer) r + held_by w' (to_agent offer) r
                   = held_by w (from_agent offer) r + held_by w (to_agent offer) r"
    by simp
  with l show "\<exists>offer orr rr. map_of (offers tm) oid = Some offer
          \<and> ResourceType_of (offer_resource offer) = Some orr
          \<and> ResourceType_of (request_resource offer) = Some rr
          \<and> map_of resp ''success'' = Some (JBool True)
          \<and> (\<forall>k r. held_by w' k r =
                held_by w k r
                - (if k = from_agent offer \<and> r = orr then offer_amount offer else 0)
                + (if k = to_agent offer \<and> r = orr then offer_amount offer else 0)
                - (if k = to_agent offer \<and> r = rr then request_amount offer else 0)
                + (if k = from_agent offer \<and> r = rr then request_amount offer else 0))
          \<and> (\<forall>r. held_by w' (from_agent offer) r + held_by w' (to_agent offer) r
                   = held_by w (from_agent offer) r + held_by w (to_agent offer) r)"
    by blast
next
  assume "offer_acceptable tm w oid acc t" "map_of (offers tm) oid = Some offer'"
    "0 < offer_amount offer'" "0 < request_amount offer'"
  then show "\<exists>resp tm' w'. accept_offer tm w now oid acc t = (Inr resp, tm', w')"
    by (rule accept_offer_returns)
next
  show "expires_at_tick (fst (create_offer tm now t from_id to_id ores oamt rres ramt)) = t + 10"
    by (simp add: create_offer_def OFFER_WINDOW_TICKS_def Let_def)
next
  show "offer_status (fst (create_offer tm now t from_id to_id ores oamt rres ramt)) = ''pending''"
    by (simp add: create_offer_def Let_def)
qed

theorem accept_offer_atomic_and_conserving_witness:
  "offer_acceptable energy_for_compute duel_world ''trade_00000000'' ''b'' 4
   \<and> (\<exists>resp tm' w'. accept_offer energy_for_compute duel_world 0 ''trade_00000000'' ''b'' 4
                       = (Inr resp, tm', w')
         \<and> map_of resp ''success'' = Some (JBool True)
         \<and> held_by w' ''a'' ENERGY = 40 \<and> held_by w' ''b'' ENERGY = 60
         \<and> held_by w' ''b'' COMPUTE = 35 \<and> held_by w' ''a'' COMPUTE = 45)
   \<and> \<not> offer_acceptable energy_for_compute duel_world ''trade_00000000'' ''b'' 12
   \<and> (\<exists>msg tm'. accept_offer energy_for_compute duel_world 0 ''trade_00000000'' ''b'' 12
                   = (Inr (trade_refused msg), tm', duel_world))"
proof -
  let ?tm = energy_for_compute
  let ?oid = "''trade_00000000''"
  have pos: "0 < offer_amount the_offer" "0 < request_amount the_offer" by simp_all
  note returns = accept_offer_atomic_and_conserving [of ?tm duel_world ?oid "''b''" 4 0 _ _ _ the_offer,
      THEN conjunct2, THEN conjunct2, THEN conjunct1, rule_format,
      OF duel_acceptable the_offer_lookup pos]
  then obtain resp tm' w' where run: "accept_offer ?tm duel_world 0 ?oid ''b'' 4 = (Inr resp, tm', w')"
    by blast
  note ledger = accept_offer_atomic_and_conserving [of ?tm duel_world ?oid "''b''" 4 0 resp tm' w',
      THEN conjunct2, THEN conjunct1, rule_format, OF duel_acceptable run]
  then obtain offer orr rr where
    l: "map_of (offers ?tm) ?oid = Some offer"
      "ResourceType_of (offer_resource offer) = Some orr"
      "ResourceType_of (request_resource offer) = Some rr"
      "map_of resp ''success'' = Some (JBool True)"
      "\<forall>k r. held_by w' k r =
                held_by duel_world k r
                - (if k = from_agent offer \<and> r = orr then offer_amount offer else 0)
                + (if k = to_agent offer \<and> r = orr then offer_amount offer else 0)
                - (if k = to_agent offer \<and> r = rr then request_amount offer else 0)
                + (if k = from_agent offer \<and> r = rr then request_amount offer else 0)"
    by blast
  from l(1) the_offer_lookup have offer: "offer = the_offer" by simp
  with l(2,3) have k: "orr = ENERGY" "rr = COMPUTE" by (simp_all add: ResourceType_of_def)
  from l(5) have "held_by w' ''a'' ENERGY = 40" "held_by w' ''b'' ENERGY = 60"
    "held_by w' ''b'' COMPUTE = 35" "held_by w' ''a'' COMPUTE = 45"
    by (simp_all add: offer k duel_held_by)
  with run l(4) have first: "\<exists>resp tm' w'. accept_offer ?tm duel_world 0 ?oid ''b'' 4
                       = (Inr resp, tm', w')
         \<and> map_of resp ''success'' = Some (JBool True)
         \<and> held_by w' ''a'' ENERGY = 40 \<and> held_by w' ''b'' ENERGY = 60
         \<and> held_by w' ''b'' COMPUTE = 35 \<and> held_by w' ''a'' COMPUTE = 45"
    by blast
  note refused = accept_offer_atomic_and_conserving [of ?tm duel_world ?oid "''b''" 12 0,
      THEN conjunct1, rule_format, OF duel_expired]
  with first duel_acceptable duel_expired show ?thesis by blast
qed

subsection \<open>Holdings and caps\<close>

text \<open>
  Claim C3 does not hold of trade acceptance. Agent b holds 95 energy under a cap of 100
  and accepts an offer of 10 energy for 5 compute: the acceptance succeeds and credits b
  without clamping, leaving b with 105 energy.
\<close>

theorem accept_offer_exceeds_cap:
  "\<exists>resp tm' w' b. accept_offer energy_for_compute near_cap_world 0 ''trade_00000000'' ''b'' 4
                       = (Inr resp, tm', w')
       \<and> map_of resp ''success'' = Some (JBool True)
       \<and> get_agent w' ''b'' = Some b
       \<and> holdings (resources b) ENERGY = Some 105 \<and> caps (resources b) ENERGY = Some 100"
  unfolding accept_offer_execute[OF near_cap_acceptable the_offer_lookup,
      of ENERGY COMPUTE 0, simplified ResourceType_of_def, simplified]
  by (simp add: debit_agent_def credit_agent_def near_cap_get Let_def default_cap_def)

subsection \<open>Claim tokens\<close>

lemma update_entries:
  assumes "distinct (map fst al)" and "x \<in> set (AList.update k v al)"
  shows "x = (k, v) \<or> (x \<in> set al \<and> fst x \<noteq> k)"
proof -
  from assms(1) have "distinct (map fst (AList.update k v al))" by (rule distinct_update)
  with assms(2) have "map_of (AList.update k v al) (fst x) = Some (snd x)"
    by (metis map_of_is_SomeI prod.collapse)
  then have "((map_of al)(k \<mapsto> v)) (fst x) = Some (snd x)" by (simp add: update_conv')
  then show ?thesis
    by (cases "fst x = k") (auto dest: map_of_SomeD simp: prod_eq_iff)
qed

lemma get_agent_by_claim_token_Some:
  assumes "get_agent_by_claim_token w token = Some (k, a)"
  shows "(k, a) \<in> set (agents w) \<and> claim_token a = Some token"
  using assms unfolding get_agent_by_claim_token_def
  by (auto simp: find_Some_iff in_set_conv_nth)

lemma token_gone_after_claim:
  assumes d: "distinct (map fst (agents w))"
    and u: "\<forall>(k', a') \<in> set (agents w). claim_token a' = Some token \<longrightarrow> k' = k"
    and c: "claim_token a = None"
  shows "get_agent_by_claim_token (set_agent w k a) token = None"
proof -
  have "\<not> (\<exists>x. x \<in> set (AList.update k a (agents w)) \<and> (\<lambda>(k, a). claim_token a = Some token) x)"
  proof
    assume "\<exists>x. x \<in> set (AList.update k a (agents w)) \<and> (\<lambda>(k, a). claim_token a = Some token) x"
    then obtain k' a' where x: "(k', a') \<in> set (AList.update k a (agents w))"
      and t: "claim_token a' = Some token" by auto
    from update_entries[OF d x] have "(k', a') = (k, a) \<or> ((k', a') \<in> set (agents w) \<and> k' \<noteq> k)"
      by simp
    with t c u show False by auto
  qed
  then show ?thesis
    by (simp add: get_agent_by_claim_token_def set_agent_def find_None_iff)
qed

lemma validate_without_holder:
  assumes "get_agent_by_claim_token w token = None"
  shows "\<exists>msg lm'. validate_claim_token w lm now token = (Inl (ClaimError msg), lm')"
  using assms by (simp add: validate_claim_token_def Let_def)

lemma validate_Inr:
  assumes "validate_claim_token w lm now token = (Inr (k, agent), lm')"
  shows "get_agent_by_claim_token w token = Some (k, agent) \<and> status agent = ''unclaimed''"
  using assms
  by (auto simp: validate_claim_token_def Let_def split: if_splits option.splits)

lemma claim_agent_Inr:
  assumes "claim_agent w lm now token owner m = (Inr resp, w', lm')"
  shows "\<exists>k agent. get_agent_by_claim_token w token = Some (k, agent) \<and> status agent = ''unclaimed''
       \<and> w' = set_agent w k (agent\<lparr>status := ''claimed'', owner_identity := Some owner,
                                   claim_token := None, claim_token_expires := None\<rparr>)"
proof (cases "validate_claim_token w lm now token")
  case (Pair out lm1)
  show ?thesis
  proof (cases out)
    case (Inl e)
    with Pair assms show ?thesis by (simp add: claim_agent_def)
  next
    case (Inr found)
    obtain k agent where "found = (k, agent)" by (cases found)
    with Pair Inr assms validate_Inr[of w lm now token k agent lm1] show ?thesis
      by (auto simp: claim_agent_def)
  qed
qed

lemma no_holder_all_fail:
  assumes "get_agent_by_claim_token w token = None"
  shows "(\<exists>msg lm3. validate_claim_token w lm now token = (Inl (ClaimError msg), lm3))
       \<and> (\<exists>msg lm3. claim_agent w lm now token owner m = (Inl (ClaimError msg), w, lm3))
       \<and> (\<exists>msg lm3. get_verification_phrase w lm now token = (Inl (ClaimError msg), lm3))"
proof -
  from validate_without_holder[OF assms] obtain msg lm3 where
    "validate_claim_token w lm now token = (Inl (ClaimError msg), lm3)" by blast
  then show ?thesis by (simp add: claim_agent_def get_verification_phrase_def)
qed

lemma claim_alice:
  "\<exists>resp lm'. claim_agent reg_world fresh_lifecycle 10 ''tok_a'' ''@alice'' ''x_tweet''
      = (Inr resp, claimed_world, lm')"
  by (simp add: claimed_world_def claim_agent_def validate_claim_token_def MAX_CLAIM_ATTEMPTS_def
        get_agent_by_claim_token_def reg_world_agents alice_def fresh_lifecycle_def Let_def)

lemma two_world_agents:
  "agents two_world =
     [(''agent_pk_a'', claimed alice ''@alice''),
      (''agent_pk_b'',
       \<lparr>agent_id = ''agent_pk_b'', display_name = ''Bob'', public_key = ''pk_b'',
        region = ''nexus'', resources = create_default, status = ''unclaimed'',
        owner_identity = None, claim_token = Some ''tok_b'', claim_token_expires = Some 86420,
        alliances = [], created_at_tick = 0, died_at_tick = None, parent_agent = None,
        metadata = []\<rparr>)]"
proof -
  have r: "regions claimed_world = regions reg_world" "tick claimed_world = tick reg_world"
    by (simp_all add: claimed_world_def claim_agent_def validate_claim_token_def
          MAX_CLAIM_ATTEMPTS_def get_agent_by_claim_token_def reg_world_agents alice_def
          set_agent_def Let_def)
  have n: "\<exists>r. regions reg_world ''nexus'' = Some r \<and> region_id r = ''nexus''"
    by (simp add: reg_world_def register_agent_def test_identity_def get_agent_def ex_regions_nexus
        world_add_agent_def Let_def mk_region_def region_add_agent_def)
  have t: "tick reg_world = 0"
    by (simp add: reg_world_def register_agent_def test_identity_def get_agent_def ex_regions_nexus
        world_add_agent_def Let_def mk_region_def)
  from n obtain r where rr: "regions reg_world ''nexus'' = Some r" "region_id r = ''nexus''" by blast
  show ?thesis
    by (simp add: two_world_def register_agent_def test_identity_def get_agent_def
          claimed_world_agents r rr t world_add_agent_def Let_def claimed_def)
qed

text \<open>
  Claim C9, as amended. A successful \<open>claim_agent\<close> finds the unclaimed agent that holds the
  token and, in one step, sets its status to claimed, records the owner identity and clears
  the token and its expiry. If that agent was the only holder of the token, every later
  validation, claim or page view presenting the token fails, whatever the attempt counters
  and the time. A token validates only while the agent holding it is unclaimed; it is not
  cleared when an unclaimed agent dies.
\<close>

theorem claim_token_single_use:
  "(claim_agent w lm now token owner m = (Inr resp, w', lm') \<longrightarrow>
      (\<exists>k agent. get_agent_by_claim_token w token = Some (k, agent)
         \<and> status agent = ''unclaimed'' \<and> claim_token agent = Some token
         \<and> get_agent w' k = Some (claimed agent owner)
         \<and> (distinct (map fst (agents w)) \<longrightarrow>
             (\<forall>(k', a') \<in> set (agents w). claim_token a' = Some token \<longrightarrow> k' = k) \<longrightarrow>
             (\<forall>lm2 now2 owner2 m2.
                (\<exists>msg lm3. validate_claim_token w' lm2 now2 token = (Inl (ClaimError msg), lm3))
                \<and> (\<exists>msg lm3. claim_agent w' lm2 now2 token owner2 m2 = (Inl (ClaimError msg), w', lm3))
                \<and> (\<exists>msg lm3. get_verification_phrase w' lm2 now2 token
                                 = (Inl (ClaimError msg), lm3))))))
   \<and> (validate_claim_token w lm now token = (Inr (k0, agent0), lm0) \<longrightarrow>
        status agent0 = ''unclaimed'' \<and> claim_token agent0 = Some token)"
proof (intro conjI impI)
  assume "claim_agent w lm now token owner m = (Inr resp, w', lm')"
  from claim_agent_Inr[OF this] obtain k agent where
    f: "get_agent_by_claim_token w token = Some (k, agent)" and s: "status agent = ''unclaimed''"
    and w': "w' = set_agent w k (claimed agent owner)"
    by (auto simp: claimed_def)
  from get_agent_by_claim_token_Some[OF f] have t: "claim_token agent = Some token" by simp
  have g: "get_agent w' k = Some (claimed agent owner)" by (simp add: w')
  have "distinct (map fst (agents w)) \<longrightarrow>
        (\<forall>(k', a') \<in> set (agents w). claim_token a' = Some token \<longrightarrow> k' = k) \<longrightarrow>
        (\<forall>lm2 now2 owner2 m2.
           (\<exists>msg lm3. validate_claim_token w' lm2 now2 token = (Inl (ClaimError msg), lm3))
           \<and> (\<exists>msg lm3. claim_agent w' lm2 now2 token owner2 m2 = (Inl (ClaimError msg), w', lm3))
           \<and> (\<exists>msg lm3. get_verification_phrase w' lm2 now2 token = (Inl (ClaimError msg), lm3)))"
  proof (intro impI allI)
    fix lm2 now2 owner2 m2
    assume "distinct (map fst (agents w))"
      "\<forall>(k', a') \<in> set (agents w). claim_token a' = Some token \<longrightarrow> k' = k"
    then have "get_agent_by_claim_token w' token = None"
      unfolding w' by (rule token_gone_after_claim) (simp add: claimed_def)
    then show "(\<exists>msg lm3. validate_claim_token w' lm2 now2 token = (Inl (ClaimError msg), lm3))
           \<and> (\<exists>msg lm3. claim_agent w' lm2 now2 token owner2 m2 = (Inl (ClaimError msg), w', lm3))
           \<and> (\<exists>msg lm3. get_verification_phrase w' lm2 now2 token = (Inl (ClaimError msg), lm3))"
      by (rule no_holder_all_fail)
  qed
  with f s t g show "\<exists>k agent. get_agent_by_claim_token w token = Some (k, agent)
         \<and> status agent = ''unclaimed'' \<and> claim_token agent = Some token
         \<and> get_agent w' k = Some (claimed agent owner)
         \<and> (distinct (map fst (agents w)) \<longrightarrow>
             (\<forall>(k', a') \<in> set (agents w). claim_token a' = Some token \<longrightarrow> k' = k) \<longrightarrow>
             (\<forall>lm2 now2 owner2 m2.
                (\<exists>msg lm3. validate_claim_token w' lm2 now2 token = (Inl (ClaimError msg), lm3))
                \<and> (\<exists>msg lm3. claim_agent w' lm2 now2 token owner2 m2 = (Inl (ClaimError msg), w', lm3))
                \<and> (\<exists>msg lm3. get_verification_phrase w' lm2 now2 token
                                 = (Inl (ClaimError msg), lm3))))"
    by blast
next
  assume v: "validate_claim_token w lm now token = (Inr (k0, agent0), lm0)"
  from validate_Inr[OF v] get_agent_by_claim_token_Some[of w token k0 agent0]
  show "status agent0 = ''unclaimed''" "claim_token agent0 = Some token" by simp_all
qed

theorem claim_token_single_use_witness:
  "(\<exists>resp lm'. claim_agent reg_world fresh_lifecycle 10 ''tok_a'' ''@alice'' ''x_tweet''
        = (Inr resp, claimed_world, lm'))
   \<and> distinct (map fst (agents reg_world))
   \<and> get_agent claimed_world ''agent_pk_a'' = Some (claimed alice ''@alice'')
   \<and> (\<exists>msg lm3. validate_claim_token claimed_world fresh_lifecycle 11 ''tok_a''
                    = (Inl (ClaimError msg), lm3))
   \<and> (\<exists>msg lm3. claim_agent claimed_world fresh_lifecycle 11 ''tok_a'' ''@mallory'' ''x_tweet''
                    = (Inl (ClaimError msg), claimed_world, lm3))"
proof -
  from claim_alice obtain resp lm' where
    run: "claim_agent reg_world fresh_lifecycle 10 ''tok_a'' ''@alice'' ''x_tweet''
            = (Inr resp, claimed_world, lm')" by blast
  have d: "distinct (map fst (agents reg_world))" by (simp add: reg_world_agents)
  note inst = claim_token_single_use [of reg_world fresh_lifecycle 10 "''tok_a''" "''@alice''"
      "''x_tweet''" resp claimed_world lm', THEN conjunct1, rule_format, OF run]
  then obtain k agent where
    f: "get_agent_by_claim_token reg_world ''tok_a'' = Some (k, agent)"
    and g: "get_agent claimed_world k = Some (claimed agent ''@alice'')"
    and later: "distinct (map fst (agents reg_world)) \<longrightarrow>
             (\<forall>(k', a') \<in> set (agents reg_world). claim_token a' = Some ''tok_a'' \<longrightarrow> k' = k) \<longrightarrow>
             (\<forall>lm2 now2 owner2 m2.
                (\<exists>msg lm3. validate_claim_token claimed_world lm2 now2 ''tok_a''
                               = (Inl (ClaimError msg), lm3))
                \<and> (\<exists>msg lm3. claim_agent claimed_world lm2 now2 ''tok_a'' owner2 m2
                               = (Inl (ClaimError msg), claimed_world, lm3))
                \<and> (\<exists>msg lm3. get_verification_phrase claimed_world lm2 now2 ''tok_a''
                                 = (Inl (ClaimError msg), lm3)))"
    by blast
  from f have k: "k = ''agent_pk_a''" "agent = alice"
    by (auto simp: get_agent_by_claim_token_def reg_world_agents alice_def)
  have u: "\<forall>(k', a') \<in> set (agents reg_world). claim_token a' = Some ''tok_a'' \<longrightarrow> k' = k"
    by (simp add: reg_world_agents k)
  from later d u have
    "(\<exists>msg lm3. validate_claim_token claimed_world fresh_lifecycle 11 ''tok_a''
                    = (Inl (ClaimError msg), lm3))"
    "(\<exists>msg lm3. claim_agent claimed_world fresh_lifecycle 11 ''tok_a'' ''@mallory'' ''x_tweet''
                    = (Inl (ClaimError msg), claimed_world, lm3))"
    by blast+
  with claim_alice d g k show ?thesis by blast
qed

text \<open>
  The claim as it was stated fails in its last part: an unclaimed agent absorbed by a merge
  is dead and still carries its claim token.
\<close>

theorem dead_agent_keeps_token_counterexample:
  "case resolve_queued 1 (get_all_agents_summary two_world) merge_bob (two_world, []) of
     (err, w', results) \<Rightarrow>
       err = None \<and> map success results = [True]
       \<and> map_option (\<lambda>a. (status a, claim_token a)) (get_agent w' ''agent_pk_b'')
           = Some (''dead'', Some ''tok_b'')"
proof -
  have s: "get_all_agents_summary two_world ''agent_pk_b''
             = Some \<lparr>summary_region = ''nexus'', summary_status = ''unclaimed''\<rparr>"
    by (simp add: get_all_agents_summary_def two_world_agents)
  have v: "validate_and_resolve (regions two_world) ''merge'' ''agent_pk_a'' create_default ''nexus''
             [''target_agent'' \<mapsto> JStr ''agent_pk_b''] 1 (get_all_agents_summary two_world)
           = (Inr (succeeded ''merge'' ''agent_pk_a''
                    [(''absorbed_agent'', JStr ''agent_pk_b''),
                     (''surviving_agent'', JStr ''agent_pk_a'')] 1),
              create_default\<lparr>holdings := (holdings create_default)(ENERGY \<mapsto> 30, COMPUTE \<mapsto> 20)\<rparr>,
              regions two_world)"
    by (simp add: validate_and_resolve_def handler_of_def ACTION_COSTS_def resolve_merge_def
          pget_def known_target_def truthy_def dict_get_def s debit_then_def deduct_def held_def
          create_default_def default_initial_def)
  show ?thesis
    by (simp add: resolve_queued_def merge_bob_def get_agent_def two_world_agents claimed_def
          alice_def is_alive_def v apply_side_effects_def side_effect_merge_def find_agent_def
          succeeded_def Let_def set_agent_def mark_dead_def world_remove_agent_def
          split: option.splits)
qed

subsection \<open>Claim attempts\<close>

lemma validate_counts:
  "attempts_used lm token < 5 \<Longrightarrow>
     attempts_used (snd (validate_claim_token w lm now token)) token = attempts_used lm token + 1"
  by (simp add: validate_claim_token_def attempts_used_def MAX_CLAIM_ATTEMPTS_def Let_def
        split: option.splits prod.splits)

lemma validate_limit:
  "5 \<le> attempts_used lm token \<Longrightarrow> validate_claim_token w lm now token = (Inl too_many, lm)"
  by (simp add: validate_claim_token_def attempts_used_def MAX_CLAIM_ATTEMPTS_def Let_def too_many_def)

lemma phrase_lm: "snd (get_verification_phrase w lm now token) = snd (validate_claim_token w lm now token)"
  by (simp add: get_verification_phrase_def Let_def split: prod.splits sum.splits)

lemma claim_lm:
  "snd (snd (claim_agent w lm now token owner m)) = snd (validate_claim_token w lm now token)"
  by (simp add: claim_agent_def split: prod.splits sum.splits)

lemma claim_page_lm: "snd (claim_page w lm now token) = snd (validate_claim_token w lm now token)"
  using phrase_lm[of w lm now token]
  by (cases "get_verification_phrase w lm now token") (auto simp: claim_page_def split: sum.splits)

lemma claim_verify_lm:
  "owner \<noteq> [] \<Longrightarrow>
     snd (snd (claim_verify w lm now token owner m)) = snd (validate_claim_token w lm now token)"
  using claim_lm[of w lm now token owner m]
  by (cases "claim_agent w lm now token owner m") (auto simp: claim_verify_def split: sum.splits)

lemma validate_counts_min:
  "attempts_used (snd (validate_claim_token w lm now token)) token
     = min 5 (attempts_used lm token + 1) \<or> 5 < attempts_used lm token"
proof (cases "attempts_used lm token < 5")
  case True
  then show ?thesis by (simp add: validate_counts)
next
  case False
  then show ?thesis by (auto simp: validate_limit)
qed

lemma serve_counts:
  assumes "\<forall>q \<in> set reqs. names_owner q" and "attempts_used lm token \<le> 5"
  shows "attempts_used (snd (serve_claim_requests token reqs (w, lm))) token
           = min 5 (attempts_used lm token + length reqs)"
  using assms
proof (induction token reqs "(w, lm)" arbitrary: w lm rule: serve_claim_requests.induct)
  case (1 token)
  then show ?case by simp
next
  case (2 token now rest w lm)
  let ?lm = "snd (claim_page w lm now token)"
  have step: "attempts_used ?lm token = min 5 (attempts_used lm token + 1)"
    using validate_counts_min[of w lm now token] 2(3) validate_limit[of lm token w now]
    by (auto simp: claim_page_lm)
  then have le: "attempts_used ?lm token \<le> 5" by simp
  from 2 have "\<forall>q \<in> set rest. names_owner q" by simp
  from 2(1)[OF this le] step show ?case by (simp add: min_def)
next
  case (3 token owner m now rest w lm)
  then have o: "owner \<noteq> []" by (simp add: names_owner_def)
  obtain w1 lm1 where s: "snd (claim_verify w lm now token owner m) = (w1, lm1)"
    by (cases "snd (claim_verify w lm now token owner m)")
  then have lm1: "lm1 = snd (validate_claim_token w lm now token)"
    using claim_verify_lm[OF o, of w lm now token m] by simp
  have step: "attempts_used lm1 token = min 5 (attempts_used lm token + 1)"
    using validate_counts_min[of w lm now token] 3(3) validate_limit[of lm token w now]
    by (auto simp: lm1)
  then have le: "attempts_used lm1 token \<le> 5" by simp
  from 3 have r: "\<forall>q \<in> set rest. names_owner q" by simp
  from 3(1)[OF s r le] step s show ?case by (simp add: min_def)
qed

lemma view_alice:
  "attempts_used lm ''tok_a'' < 5 \<Longrightarrow> now \<le> 86400 \<Longrightarrow> fst (claim_page reg_world lm now ''tok_a'') = 200"
  by (simp add: claim_page_def get_verification_phrase_def validate_claim_token_def
        attempts_used_def MAX_CLAIM_ATTEMPTS_def get_agent_by_claim_token_def reg_world_agents
        alice_def Let_def split: option.splits)

text \<open>
  Claim C10. Every validation of a token that the rate limit lets through adds one to the
  token's attempt counter before the token is looked at, whatever the outcome: a direct
  validation, the page view of the claim route, a claim, successful or not. Once the counter
  has reached five, every validation, page view or claim with that token fails with the
  too-many-attempts error and changes nothing. So after any five requests to the claim
  routes with one fresh token (page views, or claims that name an owner), every later
  validation or claim with it fails with that error, in whatever world and at whatever time.
\<close>

theorem every_validation_counts:
  "(attempts_used lm token < 5 \<longrightarrow>
      attempts_used (snd (validate_claim_token w lm now token)) token = attempts_used lm token + 1
      \<and> attempts_used (snd (get_verification_phrase w lm now token)) token = attempts_used lm token + 1
      \<and> attempts_used (snd (snd (claim_agent w lm now token owner m))) token
          = attempts_used lm token + 1
      \<and> attempts_used (snd (claim_page w lm now token)) token = attempts_used lm token + 1)
   \<and> (5 \<le> attempts_used lm token \<longrightarrow>
      validate_claim_token w lm now token = (Inl too_many, lm)
      \<and> get_verification_phrase w lm now token = (Inl too_many, lm)
      \<and> claim_agent w lm now token owner m = (Inl too_many, w, lm))
   \<and> (attempts_used lm token = 0 \<longrightarrow> length reqs = 5 \<longrightarrow> (\<forall>q \<in> set reqs. names_owner q) \<longrightarrow>
      (\<forall>w2 now2 owner2 m2.
         validate_claim_token w2 (snd (serve_claim_requests token reqs (w, lm))) now2 token
           = (Inl too_many, snd (serve_claim_requests token reqs (w, lm)))
         \<and> get_verification_phrase w2 (snd (serve_claim_requests token reqs (w, lm))) now2 token
           = (Inl too_many, snd (serve_claim_requests token reqs (w, lm)))
         \<and> claim_agent w2 (snd (serve_claim_requests token reqs (w, lm))) now2 token owner2 m2
           = (Inl too_many, w2, snd (serve_claim_requests token reqs (w, lm)))))"
proof (intro conjI impI allI)
  assume a: "attempts_used lm token < 5"
  then show "attempts_used (snd (validate_claim_token w lm now token)) token = attempts_used lm token + 1"
    by (rule validate_counts)
  from a show "attempts_used (snd (get_verification_phrase w lm now token)) token
      = attempts_used lm token + 1"
    by (simp add: phrase_lm validate_counts)
  from a show "attempts_used (snd (snd (claim_agent w lm now token owner m))) token
      = attempts_used lm token + 1"
    by (simp add: claim_lm validate_counts)
  from a show "attempts_used (snd (claim_page w lm now token)) token = attempts_used lm token + 1"
    by (simp add: claim_page_lm validate_counts)
next
  assume a: "5 \<le> attempts_used lm token"
  then show v: "validate_claim_token w lm now token = (Inl too_many, lm)" by (rule validate_limit)
  from v show "get_verification_phrase w lm now token = (Inl too_many, lm)"
    by (simp add: get_verification_phrase_def)
  from v show "claim_agent w lm now token owner m = (Inl too_many, w, lm)"
    by (simp add: claim_agent_def)
next
  fix w2 now2 owner2 m2
  assume a: "attempts_used lm token = 0" "length reqs = 5" "\<forall>q \<in> set reqs. names_owner q"
  let ?lm = "snd (serve_claim_requests token reqs (w, lm))"
  from serve_counts[OF a(3), of lm token w] a(1,2) have "5 \<le> attempts_used ?lm token" by simp
  then have v: "validate_claim_token w2 ?lm now2 token = (Inl too_many, ?lm)" by (rule validate_limit)
  then show "validate_claim_token w2 ?lm now2 token = (Inl too_many, ?lm)" .
  from v show "get_verification_phrase w2 ?lm now2 token = (Inl too_many, ?lm)"
    by (simp add: get_verification_phrase_def)
  from v show "claim_agent w2 ?lm now2 token owner2 m2 = (Inl too_many, w2, ?lm)"
    by (simp add: claim_agent_def)
qed

theorem every_validation_counts_witness:
  "attempts_used fresh_lifecycle ''tok_a'' = 0
   \<and> fst (claim_page reg_world fresh_lifecycle 1 ''tok_a'') = 200
   \<and> attempts_used (snd (claim_page reg_world fresh_lifecycle 1 ''tok_a'')) ''tok_a'' = 1
   \<and> length five_views = 5
   \<and> validate_claim_token reg_world
        (snd (serve_claim_requests ''tok_a'' five_views (reg_world, fresh_lifecycle))) 6 ''tok_a''
       = (Inl too_many, snd (serve_claim_requests ''tok_a'' five_views (reg_world, fresh_lifecycle)))
   \<and> claim_agent reg_world
        (snd (serve_claim_requests ''tok_a'' five_views (reg_world, fresh_lifecycle))) 6 ''tok_a''
        ''@alice'' ''x_tweet''
       = (Inl too_many, reg_world,
          snd (serve_claim_requests ''tok_a'' five_views (reg_world, fresh_lifecycle)))"
proof -
  have z: "attempts_used fresh_lifecycle ''tok_a'' = 0"
    by (simp add: attempts_used_def fresh_lifecycle_def)
  have l: "length five_views = 5" and n: "\<forall>q \<in> set five_views. names_owner q"
    by (simp_all add: five_views_def names_owner_def)
  note inst = every_validation_counts [of fresh_lifecycle "''tok_a''" reg_world 1 "''@alice''"
      "''x_tweet''" five_views]
  from inst z have c: "attempts_used (snd (claim_page reg_world fresh_lifecycle 1 ''tok_a'')) ''tok_a'' = 1"
    by simp
  from inst z l n have
    "validate_claim_token reg_world
        (snd (serve_claim_requests ''tok_a'' five_views (reg_world, fresh_lifecycle))) 6 ''tok_a''
       = (Inl too_many, snd (serve_claim_requests ''tok_a'' five_views (reg_world, fresh_lifecycle)))"
    "claim_agent reg_world
        (snd (serve_claim_requests ''tok_a'' five_views (reg_world, fresh_lifecycle))) 6 ''tok_a''
        ''@alice'' ''x_tweet''
       = (Inl too_many, reg_world,
          snd (serve_claim_requests ''tok_a'' five_views (reg_world, fresh_lifecycle)))"
    by blast+
  with z c l view_alice[of fresh_lifecycle 1] show ?thesis by simp
qed

subsection \<open>The per-agent loop of a tick\<close>

lemma climate_set_agent [simp]: "climate (set_agent w k a) = climate w"
  by (simp add: climate_def set_agent_def fun_eq_iff)

lemma climate_world_remove_agent [simp]: "climate (world_remove_agent w k) = climate w"
  by (auto simp: climate_def world_remove_agent_def fun_eq_iff split: option.splits)


lemma tick_effects_climate: "climate (fst (tick_effects t a st)) = climate (fst st)"
  by (cases st) (auto simp: tick_effects_def Let_def split: option.splits prod.splits)




lemma fold_tick_effects_climate:
  "climate (fst (foldl (\<lambda>st aid. tick_effects t aid st) st ks)) = climate (fst st)"
  by (induction ks arbitrary: st) (simp_all add: tick_effects_climate)













end
